theory Spec2Isabelle
  imports Main "HOL-Library.AList"
begin

section \<open>Python values used by db-factory\<close>

text \<open>
  Python \<open>str\<close> values are modelled as \<open>string\<close>, restricted to ASCII text: one
  \<open>char\<close> per character. \<open>str.upper\<close> and \<open>str.lower\<close> are therefore the ASCII case
  mappings; the Unicode case mappings of characters beyond ASCII are outside the model.
\<close>

definition upper_char :: "char \<Rightarrow> char" where
  "upper_char c =
     (let n = (of_char c :: nat) in if 97 \<le> n \<and> n \<le> 122 then char_of (n - 32) else c)"

definition lower_char :: "char \<Rightarrow> char" where
  "lower_char c =
     (let n = (of_char c :: nat) in if 65 \<le> n \<and> n \<le> 90 then char_of (n + 32) else c)"

definition upper :: "string \<Rightarrow> string" where
  "upper s = map upper_char s"

definition lower :: "string \<Rightarrow> string" where
  "lower s = map lower_char s"

text \<open>
  A Python \<open>dict\<close> with string keys and string values: the list of its items in
  insertion order. \<open>d[k] = v\<close> replaces the value in place when \<open>k\<close> is present and
  appends the item otherwise; \<open>k in d\<close> and \<open>d[k]\<close> read the first item with key \<open>k\<close>.
\<close>

type_synonym pydict = "(string \<times> string) list"

definition setitem :: "pydict \<Rightarrow> string \<Rightarrow> string \<Rightarrow> pydict" where
  "setitem d k v = AList.update k v d"

definition contains :: "pydict \<Rightarrow> string \<Rightarrow> bool" where
  "contains d k = (k \<in> fst ` set d)"

definition getitem :: "pydict \<Rightarrow> string \<Rightarrow> string option" where
  "getitem d k = map_of d k"

text \<open>
  The dict comprehension \<open>{f(key): value for key, value in d.items()}\<close>: a new, empty
  dict receives one assignment per item of \<open>d\<close>, in order.
\<close>

definition dict_comprehension :: "(string \<Rightarrow> string) \<Rightarrow> pydict \<Rightarrow> pydict" where
  "dict_comprehension f d = fold (\<lambda>(key, val) acc. setitem acc (f key) val) d []"

section \<open>common/common.py\<close>

text \<open>\<open>Common.normaize_connection_dict(connection_dict, is_to_upper)\<close>.\<close>

definition normaize_connection_dict :: "pydict \<Rightarrow> bool \<Rightarrow> pydict" where
  "normaize_connection_dict connection_dict is_to_upper =
     (if is_to_upper then dict_comprehension upper connection_dict
      else dict_comprehension lower connection_dict)"

text \<open>
  Dict objects live in a store, addressed by position. The comprehension allocates its
  result as a new object; \<open>normaize_connection_dict_obj\<close> is the method on references,
  returning the store after the call and the reference it returns.
\<close>

type_synonym store = "pydict list"

definition alloc :: "store \<Rightarrow> pydict \<Rightarrow> store \<times> nat" where
  "alloc h d = (h @ [d], length h)"

definition normaize_connection_dict_obj :: "store \<Rightarrow> nat \<Rightarrow> bool \<Rightarrow> store \<times> nat" where
  "normaize_connection_dict_obj h connection_dict is_to_upper =
     alloc h (normaize_connection_dict (h ! connection_dict) is_to_upper)"

section \<open>Exceptions\<close>

text \<open>
  The exceptions the code raises itself are \<open>ValueError\<close> (with its message) and the
  \<open>TypeError\<close> of calling \<open>None\<close>; \<open>External\<close> stands for any exception raised inside a
  collaborator (the cloud SDKs, \<open>eval\<close>, SQLAlchemy, pandas), tagged with a description.
  All of them derive from \<open>Exception\<close>.
\<close>

datatype error = ValueError string | TypeError string | External string

section \<open>Library functions\<close>

subsection \<open>\<open>urllib.parse.quote_plus\<close>, imported as \<open>urlquote\<close>\<close>

text \<open>
  \<open>quote_plus(string)\<close> with its default arguments, as of Python 3.7: letters, digits and
  \<open>_.-~\<close> are never quoted, a space becomes \<open>+\<close>, and every other byte becomes \<open>%\<close>
  followed by its two upper-case hexadecimal digits.
\<close>

definition always_safe :: "char \<Rightarrow> bool" where
  "always_safe c =
     (let n = (of_char c :: nat)
      in (65 \<le> n \<and> n \<le> 90) \<or> (97 \<le> n \<and> n \<le> 122) \<or> (48 \<le> n \<and> n \<le> 57) \<or>
         c \<in> set ''_.-~'')"

definition hex_digit :: "nat \<Rightarrow> char" where
  "hex_digit n = ''0123456789ABCDEF'' ! n"

definition quote_byte :: "string \<Rightarrow> char \<Rightarrow> string" where
  "quote_byte safe c =
     (if always_safe c \<or> c \<in> set safe then [c]
      else [CHR ''%'', hex_digit ((of_char c :: nat) div 16), hex_digit ((of_char c :: nat) mod 16)])"

definition quote :: "string \<Rightarrow> string \<Rightarrow> string" where
  "quote s safe = concat (map (quote_byte safe) s)"

definition quote_plus :: "string \<Rightarrow> string" where
  "quote_plus s =
     (if CHR '' '' \<notin> set s then quote s []
      else map (\<lambda>c. if c = CHR '' '' then CHR ''+'' else c) (quote s '' ''))"

definition urlquote :: "string \<Rightarrow> string" where
  "urlquote s = quote_plus s"

subsection \<open>\<open>os.path.join\<close> (POSIX) with two arguments\<close>

definition startswith_sep :: "string \<Rightarrow> bool" where
  "startswith_sep b = (case b of [] \<Rightarrow> False | c # _ \<Rightarrow> c = CHR ''/'')"

definition endswith_sep :: "string \<Rightarrow> bool" where
  "endswith_sep a = (case rev a of [] \<Rightarrow> False | c # _ \<Rightarrow> c = CHR ''/'')"

definition os_path_join :: "string \<Rightarrow> string \<Rightarrow> string" where
  "os_path_join a b =
     (if startswith_sep b then b
      else if a = [] \<or> endswith_sep a then a @ b
      else a @ ''/'' @ b)"

subsection \<open>Formatting\<close>

text \<open>\<open>str(x)\<close> of a value that is a string or \<open>None\<close>, as an f-string field renders it.\<close>

definition fmt :: "string option \<Rightarrow> string" where
  "fmt x = (case x of None \<Rightarrow> ''None'' | Some s \<Rightarrow> s)"

text \<open>Truth value of a string or \<open>None\<close>: false for \<open>None\<close> and for the empty string.\<close>

definition truthy :: "string option \<Rightarrow> bool" where
  "truthy x = (case x of None \<Rightarrow> False | Some s \<Rightarrow> s \<noteq> [])"

text \<open>
  \<open>str\<close> of a list of strings free of quotes and escapes: each element in single quotes,
  separated by a comma and a space, in brackets.
\<close>

definition py_repr :: "string \<Rightarrow> string" where
  "py_repr s = [CHR 0x27] @ s @ [CHR 0x27]"

fun join_comma :: "string list \<Rightarrow> string" where
  "join_comma [] = []"
| "join_comma [x] = x"
| "join_comma (x # y # ys) = x @ '', '' @ join_comma (y # ys)"

definition str_list :: "string list \<Rightarrow> string" where
  "str_list xs = ''['' @ join_comma (map py_repr xs) @ '']''"

section \<open>manager.py\<close>

definition SUPPORTED_ENGINE :: "string list" where
  "SUPPORTED_ENGINE = [''postgres'', ''mysql'', ''mariadb'', ''snowflake'', ''bigquery'', ''sqlite'']"

datatype scoped_session = ScopedSession

text \<open>The fields of a \<open>DatabaseManager\<close> object, with \<open>None\<close> as \<open>None\<close>.\<close>

record DatabaseManager =
  engine_type :: string
  database :: string
  sqlite_db_path :: string
  username :: "string option"
  password :: "string option"
  schema :: "string option"
  host :: "string option"
  port :: "string option"
  snowflake_role :: "string option"
  snowflake_account :: "string option"
  snowflake_warehouse :: "string option"
  secret_id :: "string option"
  secrete_manager_cloud :: "string option"
  aws_region :: string
  session :: "scoped_session option"

text \<open>
  What lies outside the repository, as the resolver sees it: the two cloud SDK calls behind
  \<open>SecreteManager.get_secrete\<close>, the builtin \<open>eval\<close> (taken to yield a flat dict of strings
  when it succeeds), Snowflake's URL builder, the process environment and the project id
  that Google's credential discovery reports.
\<close>

record snowflake_args =
  sf_account :: "string option"
  sf_user :: "string option"
  sf_password :: "string option"
  sf_database :: string
  sf_schema :: "string option"
  sf_warehouse :: "string option"
  sf_role :: "string option"

record cloud_env =
  aws_get_secrete :: "string \<Rightarrow> string \<Rightarrow> error + string"
  gcp_get_secrete :: "string \<Rightarrow> error + string"
  py_eval :: "string \<Rightarrow> error + pydict"
  snowflake_URL :: "snowflake_args \<Rightarrow> error + string"
  GOOGLE_APPLICATION_CREDENTIALS :: "string option"
  get_project_name :: "string option \<Rightarrow> error + string option"

text \<open>\<open>Common.get_secret(secret_id, secrete_manager_cloud, aws_region)\<close> of common.py.\<close>

definition get_secret :: "cloud_env \<Rightarrow> string \<Rightarrow> string \<Rightarrow> string \<Rightarrow> error + pydict" where
  "get_secret env sid cloud region =
     (if cloud \<in> set [''gcp''] then
        (case gcp_get_secrete env sid of Inl e \<Rightarrow> Inl e | Inr payload \<Rightarrow> py_eval env payload)
      else if cloud \<in> set [''aws''] then
        (case aws_get_secrete env sid region of Inl e \<Rightarrow> Inl e | Inr payload \<Rightarrow> py_eval env payload)
      else Inl (ValueError ''Unsupported cloud for secrete manager''))"

text \<open>Calls to collaborators made during \<open>create_uri\<close>, in order.\<close>

datatype call = GetSecret string string string | SnowflakeURL | GetProjectName

text \<open>
  \<open>DatabaseManager.fetch_from_secret\<close>: the \<open>except Exception\<close> clause logs and falls
  through to \<open>return secret\<close>, with \<open>secret\<close> still \<open>None\<close>.
\<close>

definition fetch_from_secret :: "cloud_env \<Rightarrow> DatabaseManager \<Rightarrow> pydict option \<times> call list" where
  "fetch_from_secret env m =
     (if truthy (secret_id m) \<and> truthy (secrete_manager_cloud m) then
        (case get_secret env (fmt (secret_id m)) (fmt (secrete_manager_cloud m)) (aws_region m) of
           Inl err \<Rightarrow> (None, [GetSecret (fmt (secret_id m)) (fmt (secrete_manager_cloud m)) (aws_region m)])
         | Inr secret \<Rightarrow>
             (Some secret, [GetSecret (fmt (secret_id m)) (fmt (secrete_manager_cloud m)) (aws_region m)]))
      else (None, []))"

text \<open>The block under \<open>if secret:\<close> of \<open>create_uri\<close>.\<close>

definition apply_secret :: "pydict \<Rightarrow> DatabaseManager \<Rightarrow> DatabaseManager" where
  "apply_secret secret0 m0 =
     (let secret = normaize_connection_dict secret0 True;
          m1 = (if contains secret ''USERNAME'' then m0\<lparr>username := getitem secret ''USERNAME''\<rparr> else m0);
          m2 = (if contains secret ''PASSWORD'' then m1\<lparr>password := getitem secret ''PASSWORD''\<rparr> else m1);
          m3 = (if contains secret ''SCHEMA'' then m2\<lparr>schema := getitem secret ''SCHEMA''\<rparr> else m2);
          m4 = (if contains secret ''HOST'' then m3\<lparr>host := getitem secret ''HOST''\<rparr> else m3);
          m5 = (if contains secret ''PORT'' then m4\<lparr>port := getitem secret ''PORT''\<rparr> else m4);
          m6 = (if contains secret ''SNOWFLAKE_ROLE''
                then m5\<lparr>snowflake_role := getitem secret ''SNOWFLAKE_ROLE''\<rparr> else m5);
          m7 = (if contains secret ''SNOWFLAKE_ACCOUNT''
                then m6\<lparr>snowflake_account := getitem secret ''SNOWFLAKE_ACCOUNT''\<rparr> else m6);
          m8 = (if contains secret ''SNOWFLAKE_WAREHOUSE''
                then m7\<lparr>snowflake_warehouse := getitem secret ''SNOWFLAKE_WAREHOUSE''\<rparr> else m7)
      in m8)"

definition merge_secret :: "pydict option \<Rightarrow> DatabaseManager \<Rightarrow> DatabaseManager" where
  "merge_secret secret m =
     (case secret of None \<Rightarrow> m | Some d \<Rightarrow> if d \<noteq> [] then apply_secret d m else m)"

text \<open>\<open>if self.password: self.password = urlquote(self.password)\<close>.\<close>

definition quote_password :: "DatabaseManager \<Rightarrow> DatabaseManager" where
  "quote_password m =
     (if truthy (password m) then m\<lparr>password := Some (urlquote (fmt (password m)))\<rparr> else m)"

type_synonym resolved = "string \<times> pydict option \<times> bool"

text \<open>
  The engine dispatch of \<open>create_uri\<close>, from \<open>is_not_dialect_desc = False\<close> to the
  \<open>return\<close>. The chain of \<open>elif\<close> has no \<open>else\<close>: were no branch taken, \<open>uri\<close> would be
  unbound at the \<open>return\<close>. Inside \<open>create_uri\<close> the engine is one of \<open>SUPPORTED_ENGINE\<close>,
  so one branch is taken.
\<close>

definition build_uri :: "cloud_env \<Rightarrow> DatabaseManager \<Rightarrow> (error + resolved) \<times> call list" where
  "build_uri env m =
     (if engine_type m \<in> set [''sqlite''] then
        (Inr (''sqlite:///'' @ os_path_join (sqlite_db_path m) (database m @ ''.db''), None, False), [])
      else if engine_type m \<in> set [''postgres''] then
        (Inr (''postgres+pg8000://'' @ fmt (username m) @ '':'' @ fmt (password m) @ ''@'' @
              fmt (host m) @ '':'' @ fmt (port m) @ ''/'' @ database m,
              Some [(''client_encoding'', ''utf8'')], True), [])
      else if engine_type m \<in> set [''mysql'', ''mariadb''] then
        (Inr (''mysql+pymysql://'' @ fmt (username m) @ '':'' @ fmt (password m) @ ''@'' @
              fmt (host m) @ '':'' @ fmt (port m) @ ''/'' @ database m @ ''?charset=utf8mb4'',
              None, False), [])
      else if engine_type m \<in> set [''snowflake''] then
        (case snowflake_URL env
                \<lparr>sf_account = snowflake_account m, sf_user = username m, sf_password = password m,
                 sf_database = database m, sf_schema = schema m,
                 sf_warehouse = snowflake_warehouse m, sf_role = snowflake_role m\<rparr> of
           Inl e \<Rightarrow> (Inl e, [SnowflakeURL])
         | Inr uri \<Rightarrow> (Inr (uri, None, False), [SnowflakeURL]))
      else if engine_type m \<in> set [''bigquery''] then
        (let gcp_service_file =
               (if truthy (GOOGLE_APPLICATION_CREDENTIALS env)
                then GOOGLE_APPLICATION_CREDENTIALS env else None)
         in case get_project_name env gcp_service_file of
              Inl e \<Rightarrow> (Inl e, [GetProjectName])
            | Inr project_name \<Rightarrow>
                (Inr (''bigquery://'' @ fmt project_name @ ''/'' @ database m,
                      (if truthy gcp_service_file
                       then Some [(''credentials_path'', fmt gcp_service_file)] else None),
                      False), [GetProjectName]))
      else (Inl (External ''UnboundLocalError''), []))"

text \<open>
  \<open>DatabaseManager.create_uri\<close>: the outcome (the raised exception, or the returned
  triple \<open>uri, param, is_not_dialect_desc\<close>), the object after the call, and the
  collaborators called.
\<close>

definition create_uri ::
  "cloud_env \<Rightarrow> DatabaseManager \<Rightarrow> (error + resolved) \<times> DatabaseManager \<times> call list" where
  "create_uri env m =
     (if engine_type m \<notin> set SUPPORTED_ENGINE then
        (Inl (ValueError (''Unsupported engine '' @ [CHR 0x27] @ engine_type m @ [CHR 0x27] @
                          ''. Supported are '' @ [CHR 0x27] @ str_list SUPPORTED_ENGINE @ [CHR 0x27])),
         m, [])
      else
        (let (secret, calls1) = fetch_from_secret env m;
             m' = quote_password (merge_secret secret m);
             (res, calls2) = build_uri env m'
         in (res, m', calls1 @ calls2)))"

section \<open>operations.py\<close>

text \<open>
  A \<open>DataFrame\<close> is the list of its rows, so \<open>len(panda_df)\<close> is \<open>length\<close>; an
  argument \<open>panda_df\<close> that is not a \<open>DataFrame\<close> (the default \<open>None\<close>) is \<open>None\<close>. What
  \<open>execute\<close> returns is \<open>None\<close>, the rows of \<open>fetchall\<close> or the frame of \<open>read_sql\<close>.
\<close>

type_synonym row = "string list"
type_synonym dataframe = "row list"

datatype rows = PyNone | Rows "row list" | Frame dataframe

text \<open>
  The outcomes of the SQLAlchemy and pandas calls that one \<open>execute\<close> can make: each
  either raises or returns. The result of \<open>session.execute\<close> carries its \<open>returns_rows\<close>
  attribute and what its \<open>fetchall\<close> does.
\<close>

record sql_result =
  returns_rows :: bool
  fetchall :: "error + row list"

record db_env =
  to_sql :: "error option"
  commit :: "error option"
  session_execute :: "error + sql_result"
  read_sql :: "error + dataframe"
  close :: "error option"

text \<open>Calls on the session and its bind, in order.\<close>

datatype event =
    SessionCall
  | ToSql dataframe "string option" string "nat option"
  | Commit
  | Execute string
  | Fetchall
  | ReadSql string "nat option"
  | Close

text \<open>\<open>Operations.__init__(session)\<close>: calls the registry, which yields the session.\<close>

definition Operations_init :: "scoped_session option \<Rightarrow> (error + unit) \<times> event list" where
  "Operations_init s =
     (case s of
        None \<Rightarrow> (Inl (TypeError ([CHR 0x27] @ ''NoneType'' @ [CHR 0x27] @ '' object is not callable'')), [])
      | Some _ \<Rightarrow> (Inr (), [SessionCall]))"

text \<open>The \<open>try\<close> block of \<open>Operations.execute\<close>.\<close>

definition execute_body ::
  "db_env \<Rightarrow> string option \<Rightarrow> dataframe option \<Rightarrow> string option \<Rightarrow> nat option \<Rightarrow> string \<Rightarrow> bool
     \<Rightarrow> (error + rows) \<times> event list" where
  "execute_body env sql panda_df table_name chunk_size exist_action get_df =
     (case panda_df of
        Some df \<Rightarrow>
          (if length df \<noteq> 0 then
             (case to_sql env of
                Some e \<Rightarrow> (Inl e, [ToSql df table_name exist_action chunk_size])
              | None \<Rightarrow>
                  (case commit env of
                     Some e \<Rightarrow> (Inl e, [ToSql df table_name exist_action chunk_size, Commit])
                   | None \<Rightarrow> (Inr PyNone, [ToSql df table_name exist_action chunk_size, Commit])))
           else (Inl (ValueError ''Invalid DataFrame''), []))
      | None \<Rightarrow>
          (if truthy sql then
             (if get_df then
                (case read_sql env of
                   Inl e \<Rightarrow> (Inl e, [ReadSql (fmt sql) chunk_size])
                 | Inr f \<Rightarrow> (Inr (Frame f), [ReadSql (fmt sql) chunk_size]))
              else
                (case session_execute env of
                   Inl e \<Rightarrow> (Inl e, [Execute (fmt sql)])
                 | Inr result \<Rightarrow>
                     (if returns_rows result then
                        (case fetchall result of
                           Inl e \<Rightarrow> (Inl e, [Execute (fmt sql), Fetchall])
                         | Inr rs \<Rightarrow> (Inr (Rows rs), [Execute (fmt sql), Fetchall]))
                      else
                        (case commit env of
                           Some e \<Rightarrow> (Inl e, [Execute (fmt sql), Commit])
                         | None \<Rightarrow> (Inr PyNone, [Execute (fmt sql), Commit])))))
           else (Inl (ValueError ''No DDL or DML quesries to execute''), [])))"

text \<open>
  \<open>Operations.execute\<close>: the \<open>except\<close> clause logs and re-raises; the \<open>finally\<close>
  clause calls \<open>self.session.close()\<close>, whose own exception, if any, is the one that
  leaves the method.
\<close>

definition execute ::
  "db_env \<Rightarrow> string option \<Rightarrow> dataframe option \<Rightarrow> string option \<Rightarrow> nat option \<Rightarrow> string \<Rightarrow> bool
     \<Rightarrow> (error + rows) \<times> event list" where
  "execute env sql panda_df table_name chunk_size exist_action get_df =
     (let (res, evs) = execute_body env sql panda_df table_name chunk_size exist_action get_df
      in case close env of
           Some e \<Rightarrow> (Inl e, evs @ [Close])
         | None \<Rightarrow> (res, evs @ [Close]))"

text \<open>\<open>DatabaseManager.execute_sql\<close>, \<open>execute_df\<close> and \<open>get_df\<close> of manager.py.\<close>

definition execute_sql :: "db_env \<Rightarrow> DatabaseManager \<Rightarrow> string option \<Rightarrow> (error + rows) \<times> event list" where
  "execute_sql env m sql =
     (case Operations_init (session m) of
        (Inl e, evs) \<Rightarrow> (Inl e, evs)
      | (Inr _, evs) \<Rightarrow>
          (let (res, evs') = execute env sql None None None ''append'' False in (res, evs @ evs')))"

definition execute_df ::
  "db_env \<Rightarrow> DatabaseManager \<Rightarrow> dataframe option \<Rightarrow> string option \<Rightarrow> nat option \<Rightarrow> string
     \<Rightarrow> (error + rows) \<times> event list" where
  "execute_df env m panda_df table_name chunk_size exist_action =
     (case Operations_init (session m) of
        (Inl e, evs) \<Rightarrow> (Inl e, evs)
      | (Inr _, evs) \<Rightarrow>
          (let (res, evs') = execute env None panda_df table_name chunk_size exist_action False
           in (res, evs @ evs')))"

definition get_df ::
  "db_env \<Rightarrow> DatabaseManager \<Rightarrow> string option \<Rightarrow> nat option \<Rightarrow> (error + rows) \<times> event list" where
  "get_df env m sql chunk_size =
     (case Operations_init (session m) of
        (Inl e, evs) \<Rightarrow> (Inl e, evs)
      | (Inr _, evs) \<Rightarrow>
          (let (res, evs') = execute env sql None None chunk_size ''append'' True in (res, evs @ evs')))"

section \<open>Auxiliary definitions for the statements\<close>

text \<open>The method applied to each key: \<open>key.upper()\<close> or \<open>key.lower()\<close>.\<close>

definition recase :: "bool \<Rightarrow> string \<Rightarrow> string" where
  "recase is_to_upper = (if is_to_upper then upper else lower)"

text \<open>An environment in which every collaborator raises, and no credentials file is set.\<close>

definition failing_env :: cloud_env where
  "failing_env =
     \<lparr>aws_get_secrete = (\<lambda>_ _. Inl (External ''ResourceNotFoundException'')),
      gcp_get_secrete = (\<lambda>_. Inl (External ''NotFound'')),
      py_eval = (\<lambda>_. Inl (External ''SyntaxError'')),
      snowflake_URL = (\<lambda>_. Inl (External ''ImportError'')),
      GOOGLE_APPLICATION_CREDENTIALS = None,
      get_project_name = (\<lambda>_. Inl (External ''DefaultCredentialsError''))\<rparr>"

text \<open>
  \<open>DatabaseManager(engine_type="postgres", database="d", sqlite_db_path="/tmp", username="u",
  password="p@ss", host="h", port="5432")\<close>, the other arguments at their defaults.
\<close>

definition pg_manager :: DatabaseManager where
  "pg_manager =
     \<lparr>engine_type = ''postgres'', database = ''d'', sqlite_db_path = ''/tmp'',
      username = Some ''u'', password = Some ''p@ss'', schema = Some ''public'',
      host = Some ''h'', port = Some ''5432'', snowflake_role = None, snowflake_account = None,
      snowflake_warehouse = None, secret_id = None, secrete_manager_cloud = Some ''aws'',
      aws_region = ''us-east-1'', session = None\<rparr>"

text \<open>The same object for the engine \<open>sqlite\<close> and the database \<open>mydb\<close>.\<close>

definition sqlite_manager :: DatabaseManager where
  "sqlite_manager = pg_manager\<lparr>engine_type := ''sqlite'', database := ''mydb''\<rparr>"

text \<open>An environment in which the AWS secret is found and its payload evaluates to \<open>d\<close>.\<close>

definition secret_env :: "pydict \<Rightarrow> cloud_env" where
  "secret_env d = failing_env\<lparr>aws_get_secrete := (\<lambda>_ _. Inr ''payload''), py_eval := (\<lambda>_. Inr d)\<rparr>"

text \<open>
  The value a field has after \<open>if key in secret: self.field = secret[key]\<close>, from the
  value it had before.
\<close>

definition pick :: "pydict \<Rightarrow> string \<Rightarrow> string option \<Rightarrow> string option" where
  "pick secret key old = (if contains secret key then getitem secret key else old)"

text \<open>
  A database on which every call succeeds; a statement returns the single row \<open>1\<close>.
\<close>

definition ok_db :: db_env where
  "ok_db =
     \<lparr>to_sql = None, commit = None,
      session_execute = Inr \<lparr>returns_rows = True, fetchall = Inr [[''1'']]\<rparr>,
      read_sql = Inr [[''1'']], close = None\<rparr>"

text \<open>The postgres object after \<open>create_session\<close>: it holds a session registry.\<close>

definition connected_manager :: DatabaseManager where
  "connected_manager = pg_manager\<lparr>session := Some ScopedSession\<rparr>"

section \<open>Properties of \<open>normaize_connection_dict\<close>\<close>

lemma upper_char_idem: "upper_char (upper_char c) = upper_char c"
proof -
  show ?thesis
    by (auto simp: upper_char_def Let_def)
qed

lemma lower_char_idem: "lower_char (lower_char c) = lower_char c"
proof -
  have "of_char c < (256::nat)" by simp
  then show ?thesis
    by (auto simp: lower_char_def Let_def)
qed

lemma upper_idem: "upper (upper s) = upper s"
  by (simp add: upper_def upper_char_idem)

lemma lower_idem: "lower (lower s) = lower s"
  by (simp add: lower_def lower_char_idem)

lemma fold_setitem_keys:
  "fst ` set (fold (\<lambda>(key, val) acc. setitem acc (f key) val) d acc) = f ` fst ` set d \<union> fst ` set acc"
proof (induction d arbitrary: acc)
  case Nil
  then show ?case by simp
next
  case (Cons p d)
  obtain k v where p: "p = (k, v)" by (cases p)
  have "fst ` set (setitem acc (f k) v) = {f k} \<union> fst ` set acc"
    by (simp add: setitem_def dom_update)
  then show ?case by (auto simp: p Cons.IH)
qed

lemma fold_setitem_distinct:
  "distinct (map fst acc) \<Longrightarrow> distinct (map fst (fold (\<lambda>(key, val) acc. setitem acc (f key) val) d acc))"
  by (induction d arbitrary: acc) (auto simp: setitem_def distinct_update)

lemma fold_setitem_map_of:
  "map_of (fold (\<lambda>(key, val) acc. setitem acc (f key) val) d acc) = map_of (rev (map (apfst f) d) @ acc)"
  by (induction d arbitrary: acc) (auto simp: setitem_def update_conv' map_add_def fun_eq_iff split: option.splits)

lemma update_fresh: "k \<notin> fst ` set al \<Longrightarrow> AList.update k v al = al @ [(k, v)]"
  by (induction al) auto

lemma fold_setitem_fixed:
  "distinct (map fst d) \<Longrightarrow> \<forall>k \<in> fst ` set d. f k = k \<Longrightarrow> fst ` set d \<inter> fst ` set acc = {} \<Longrightarrow>
   fold (\<lambda>(key, val) acc. setitem acc (f key) val) d acc = acc @ d"
proof (induction d arbitrary: acc)
  case Nil
  then show ?case by simp
next
  case (Cons p d)
  obtain k v where p: "p = (k, v)" by (cases p)
  from Cons.prems have fk: "f k = k" and fresh: "k \<notin> fst ` set acc" by (auto simp: p)
  have step: "setitem acc (f k) v = acc @ [(k, v)]"
    by (simp add: setitem_def fk update_fresh [OF fresh])
  have "fold (\<lambda>(key, val) acc. setitem acc (f key) val) d (acc @ [(k, v)]) = (acc @ [(k, v)]) @ d"
    using Cons.prems by (intro Cons.IH) (auto simp: p)
  then show ?case by (simp add: p step)
qed

lemma dict_comprehension_idem:
  assumes "\<And>s. f (f s) = f s"
  shows "dict_comprehension f (dict_comprehension f d) = dict_comprehension f d"
proof -
  let ?r = "dict_comprehension f d"
  have d: "distinct (map fst ?r)"
    unfolding dict_comprehension_def by (rule fold_setitem_distinct) simp
  have k: "fst ` set ?r = f ` fst ` set d"
    unfolding dict_comprehension_def by (simp add: fold_setitem_keys)
  have "\<forall>k \<in> fst ` set ?r. f k = k" unfolding k using assms by auto
  from fold_setitem_fixed [OF d this, of "[]"] show ?thesis
    by (simp add: dict_comprehension_def)
qed

lemma dict_comprehension_value:
  assumes "distinct (map fst d)" "inj_on f (fst ` set d)" "(k, v) \<in> set d"
  shows "map_of (dict_comprehension f d) (f k) = Some v"
proof -
  have "distinct (map fst (map (apfst f) d))"
    using assms(1,2) by (auto simp: distinct_map comp_def inj_on_def)
  then have "distinct (map fst (rev (map (apfst f) d)))"
    by (simp add: rev_map [symmetric] del: map_map)
  moreover have "(f k, v) \<in> set (rev (map (apfst f) d))" using assms(3) by force
  ultimately have "map_of (rev (map (apfst f) d)) (f k) = Some v" by (rule map_of_is_SomeI)
  then show ?thesis by (simp add: dict_comprehension_def fold_setitem_map_of)
qed


lemma fold_setitem_no_collision:
  "distinct (map (f \<circ> fst) d) \<Longrightarrow> f ` fst ` set d \<inter> fst ` set acc = {} \<Longrightarrow>
   fold (\<lambda>(key, val) acc. setitem acc (f key) val) d acc = acc @ map (apfst f) d"
proof (induction d arbitrary: acc)
  case Nil
  then show ?case by simp
next
  case (Cons p d)
  obtain k v where p: "p = (k, v)" by (cases p)
  from Cons.prems have fresh: "f k \<notin> fst ` set acc" by (auto simp: p)
  have step: "setitem acc (f k) v = acc @ [(f k, v)]"
    by (simp add: setitem_def update_fresh [OF fresh])
  have "fold (\<lambda>(key, val) acc. setitem acc (f key) val) d (acc @ [(f k, v)]) =
          (acc @ [(f k, v)]) @ map (apfst f) d"
    using Cons.prems by (intro Cons.IH) (auto simp: p)
  then show ?case by (simp add: p step)
qed

lemma dict_comprehension_no_collision:
  "distinct (map (f \<circ> fst) d) \<Longrightarrow> dict_comprehension f d = map (apfst f) d"
  using fold_setitem_no_collision [of f d "[]"] by (simp add: dict_comprehension_def)

lemma dict_comprehension_keys: "fst ` set (dict_comprehension f d) = f ` fst ` set d"
  by (simp add: dict_comprehension_def fold_setitem_keys)

lemma dict_comprehension_distinct: "distinct (map fst (dict_comprehension f d))"
  unfolding dict_comprehension_def by (rule fold_setitem_distinct) simp

lemma dict_comprehension_map_of:
  "map_of (dict_comprehension f d) = map_of (rev (map (apfst f) d))"
  by (simp add: dict_comprehension_def fold_setitem_map_of)

lemma normaize_as_comprehension:
  "normaize_connection_dict d is_to_upper = dict_comprehension (recase is_to_upper) d"
  by (simp add: normaize_connection_dict_def recase_def)

lemma recase_idem: "recase b (recase b s) = recase b s"
  by (simp add: recase_def upper_idem lower_idem)

text \<open>
  C8 (as amended). \<open>normaize_connection_dict\<close> returns a new dict object and leaves every
  existing object, its argument included, as it was. The keys of the result are the re-cased
  keys of the argument, each once; a key of the result holds the value of the last item of
  the argument whose re-cased key it is. When no two keys of the argument coincide after
  re-casing, the result is the argument with every key re-cased and every value kept, item
  for item. Normalising the result again with the same flag gives the result back. The
  literal instance of the specification holds.
\<close>

theorem normaize_connection_dict_spec:
  assumes "connection_dict < length h"
  shows "(let d = h ! connection_dict;
              (h', r) = normaize_connection_dict_obj h connection_dict is_to_upper
          in r = length h \<and> length h' = Suc (length h) \<and> (\<forall>a < length h. h' ! a = h ! a) \<and>
             h' ! r = normaize_connection_dict d is_to_upper \<and>
             fst ` set (h' ! r) = recase is_to_upper ` fst ` set d \<and>
             distinct (map fst (h' ! r)) \<and>
             (\<forall>k. getitem (h' ! r) k = map_of (rev (map (apfst (recase is_to_upper)) d)) k) \<and>
             (distinct (map (recase is_to_upper \<circ> fst) d) \<longrightarrow>
                h' ! r = map (apfst (recase is_to_upper)) d) \<and>
             normaize_connection_dict (h' ! r) is_to_upper = h' ! r)
         \<and> normaize_connection_dict [(''user'', ''a''), (''Pass'', ''b'')] True =
             [(''USER'', ''a''), (''PASS'', ''b'')]"
proof -
  let ?d = "h ! connection_dict"
  let ?r = "normaize_connection_dict ?d is_to_upper"
  have obj: "normaize_connection_dict_obj h connection_dict is_to_upper = (h @ [?r], length h)"
    by (simp add: normaize_connection_dict_obj_def alloc_def)
  have old: "\<forall>a < length h. (h @ [?r]) ! a = h ! a" by (simp add: nth_append)
  have new: "(h @ [?r]) ! length h = ?r" by simp
  have keys: "fst ` set ?r = recase is_to_upper ` fst ` set ?d"
    by (simp add: normaize_as_comprehension dict_comprehension_keys)
  have dist: "distinct (map fst ?r)"
    by (simp add: normaize_as_comprehension dict_comprehension_distinct)
  have look: "\<forall>k. getitem ?r k = map_of (rev (map (apfst (recase is_to_upper)) ?d)) k"
    by (simp add: getitem_def normaize_as_comprehension dict_comprehension_map_of)
  have nocoll: "distinct (map (recase is_to_upper \<circ> fst) ?d) \<longrightarrow> ?r = map (apfst (recase is_to_upper)) ?d"
    by (simp add: normaize_as_comprehension dict_comprehension_no_collision)
  have idem: "normaize_connection_dict ?r is_to_upper = ?r"
    unfolding normaize_as_comprehension by (rule dict_comprehension_idem) (rule recase_idem)
  have lit: "normaize_connection_dict [(''user'', ''a''), (''Pass'', ''b'')] True =
             [(''USER'', ''a''), (''PASS'', ''b'')]"
    by code_simp
  show ?thesis
    unfolding Let_def obj prod.case new
    using old keys dist look nocoll idem lit by simp
qed

theorem normaize_connection_dict_spec_witness:
  "(0::nat) < length [[(''user'', ''a''), (''Pass'', ''b'')]] \<and>
   distinct (map (recase True \<circ> fst) [(''user'', ''a''), (''Pass'', ''b'')]) \<and>
   normaize_connection_dict_obj [[(''user'', ''a''), (''Pass'', ''b'')]] 0 True =
     ([[(''user'', ''a''), (''Pass'', ''b'')], [(''USER'', ''a''), (''PASS'', ''b'')]], 1)"
proof -
  have d: "distinct (map (recase True \<circ> fst) [(''user'', ''a''), (''Pass'', ''b'')])"
    by code_simp
  have "normaize_connection_dict_obj [[(''user'', ''a''), (''Pass'', ''b'')]] 0 True =
     ([[(''user'', ''a''), (''Pass'', ''b'')], [(''USER'', ''a''), (''PASS'', ''b'')]], 1)"
    using normaize_connection_dict_spec [of 0 "[[(''user'', ''a''), (''Pass'', ''b'')]]" True]
    by (simp add: normaize_connection_dict_obj_def alloc_def)
  with d show ?thesis by simp
qed

text \<open>
  C8 as stated fails where two keys coincide after re-casing: of \<open>{"a": "1", "A": "2"}\<close>
  only the value \<open>"2"\<close> is left under \<open>"A"\<close>, so the values are not all kept.
\<close>

theorem normaize_collision_counterexample:
  "distinct (map fst [(''a'', ''1''), (''A'', ''2'')]) \<and>
   normaize_connection_dict [(''a'', ''1''), (''A'', ''2'')] True = [(''A'', ''2'')] \<and>
   getitem (normaize_connection_dict [(''a'', ''1''), (''A'', ''2'')] True) (upper ''a'') \<noteq> Some ''1''"
  by code_simp

section \<open>Properties of \<open>create_uri\<close>\<close>

lemma urlquote_pass: "urlquote ''p@ss'' = ''p%40ss''"
  by code_simp

lemma create_uri_no_secret:
  assumes "engine_type m \<in> set SUPPORTED_ENGINE" "\<not> truthy (secret_id m)"
  shows "create_uri env m =
           (fst (build_uri env (quote_password m)), quote_password m, snd (build_uri env (quote_password m)))"
  using assms by (simp add: create_uri_def fetch_from_secret_def merge_secret_def Let_def case_prod_beta)

text \<open>
  C1. For the engine \<open>postgres\<close> with username \<open>u\<close>, password \<open>p@ss\<close>, host \<open>h\<close>, port
  \<open>5432\<close>, database \<open>d\<close> and no secret id, \<open>create_uri\<close> returns the identifier
  \<open>postgres+pg8000://u:p%40ss@h:5432/d\<close>, the extra options \<open>{client_encoding: utf8}\<close> and
  the flag \<open>True\<close>, calling no collaborator; the password embedded is the percent-encoding
  of \<open>p@ss\<close>, which is also what the object holds afterwards.
\<close>

theorem postgres_uri:
  assumes "engine_type m = ''postgres''" "username m = Some ''u''" "password m = Some ''p@ss''"
    "host m = Some ''h''" "port m = Some ''5432''" "database m = ''d''" "\<not> truthy (secret_id m)"
  shows "create_uri env m =
           (Inr (''postgres+pg8000://u:p%40ss@h:5432/d'', Some [(''client_encoding'', ''utf8'')], True),
            m\<lparr>password := Some ''p%40ss''\<rparr>, [])
         \<and> urlquote ''p@ss'' = ''p%40ss''"
proof -
  have sup: "engine_type m \<in> set SUPPORTED_ENGINE"
    by (simp add: assms(1) SUPPORTED_ENGINE_def)
  have qp: "quote_password m = m\<lparr>password := Some ''p%40ss''\<rparr>"
    by (simp add: quote_password_def assms(3) truthy_def fmt_def urlquote_pass)
  have "build_uri env (m\<lparr>password := Some ''p%40ss''\<rparr>) =
          (Inr (''postgres+pg8000://u:p%40ss@h:5432/d'', Some [(''client_encoding'', ''utf8'')], True), [])"
    by (simp add: build_uri_def assms fmt_def)
  then show ?thesis
    by (simp add: create_uri_no_secret [OF sup assms(7)] qp urlquote_pass)
qed

theorem postgres_uri_witness:
  "create_uri failing_env pg_manager =
     (Inr (''postgres+pg8000://u:p%40ss@h:5432/d'', Some [(''client_encoding'', ''utf8'')], True),
      pg_manager\<lparr>password := Some ''p%40ss''\<rparr>, [])"
  using postgres_uri [of pg_manager failing_env] by (simp add: pg_manager_def truthy_def)

text \<open>
  C4. For an engine outside \<open>SUPPORTED_ENGINE\<close>, \<open>create_uri\<close> raises \<open>ValueError\<close> with a
  message that names the engine given and the supported engines, leaves the object as it
  was and calls no collaborator: the secret is not fetched. The supported engines are
  sqlite, postgres, mysql, mariadb, snowflake and bigquery.
\<close>

theorem unsupported_engine:
  assumes "engine_type m \<notin> set SUPPORTED_ENGINE"
  shows "create_uri env m =
           (Inl (ValueError (''Unsupported engine '' @ [CHR 0x27] @ engine_type m @ [CHR 0x27] @
              ''. Supported are '' @ [CHR 0x27] @
              ''['postgres', 'mysql', 'mariadb', 'snowflake', 'bigquery', 'sqlite']'' @ [CHR 0x27])),
            m, [])
         \<and> set SUPPORTED_ENGINE = {''sqlite'', ''postgres'', ''mysql'', ''mariadb'', ''snowflake'', ''bigquery''}"
proof -
  have s: "str_list SUPPORTED_ENGINE = ''['postgres', 'mysql', 'mariadb', 'snowflake', 'bigquery', 'sqlite']''"
    by code_simp
  have "set SUPPORTED_ENGINE = {''sqlite'', ''postgres'', ''mysql'', ''mariadb'', ''snowflake'', ''bigquery''}"
    by (auto simp: SUPPORTED_ENGINE_def)
  then show ?thesis using assms by (simp add: create_uri_def s)
qed

theorem unsupported_engine_witness:
  "''oracle'' \<notin> set SUPPORTED_ENGINE \<and>
   create_uri failing_env (pg_manager\<lparr>engine_type := ''oracle'', secret_id := Some ''sid''\<rparr>) =
     (Inl (ValueError (''Unsupported engine 'oracle'. Supported are '' @ [CHR 0x27] @
              ''['postgres', 'mysql', 'mariadb', 'snowflake', 'bigquery', 'sqlite']'' @ [CHR 0x27])),
      pg_manager\<lparr>engine_type := ''oracle'', secret_id := Some ''sid''\<rparr>, [])"
proof -
  have h: "engine_type (pg_manager\<lparr>engine_type := ''oracle'', secret_id := Some ''sid''\<rparr>) \<notin> set SUPPORTED_ENGINE"
    by (simp add: SUPPORTED_ENGINE_def)
  show ?thesis
    using h unsupported_engine [OF h, of failing_env] by simp
qed

lemma create_uri_supported:
  assumes "engine_type m \<in> set SUPPORTED_ENGINE"
  shows "create_uri env m =
           (fst (build_uri env (quote_password (merge_secret (fst (fetch_from_secret env m)) m))),
            quote_password (merge_secret (fst (fetch_from_secret env m)) m),
            snd (fetch_from_secret env m) @
            snd (build_uri env (quote_password (merge_secret (fst (fetch_from_secret env m)) m))))"
  using assms by (simp add: create_uri_def Let_def case_prod_beta)

lemma apply_secret_fields:
  "username (apply_secret d m) = pick (normaize_connection_dict d True) ''USERNAME'' (username m)"
  "password (apply_secret d m) = pick (normaize_connection_dict d True) ''PASSWORD'' (password m)"
  "schema (apply_secret d m) = pick (normaize_connection_dict d True) ''SCHEMA'' (schema m)"
  "host (apply_secret d m) = pick (normaize_connection_dict d True) ''HOST'' (host m)"
  "port (apply_secret d m) = pick (normaize_connection_dict d True) ''PORT'' (port m)"
  "snowflake_role (apply_secret d m) = pick (normaize_connection_dict d True) ''SNOWFLAKE_ROLE'' (snowflake_role m)"
  "snowflake_account (apply_secret d m) = pick (normaize_connection_dict d True) ''SNOWFLAKE_ACCOUNT'' (snowflake_account m)"
  "snowflake_warehouse (apply_secret d m) = pick (normaize_connection_dict d True) ''SNOWFLAKE_WAREHOUSE'' (snowflake_warehouse m)"
  by (simp_all add: apply_secret_def Let_def pick_def)

lemma apply_secret_keeps:
  "engine_type (apply_secret d m) = engine_type m"
  "database (apply_secret d m) = database m"
  "sqlite_db_path (apply_secret d m) = sqlite_db_path m"
  "secret_id (apply_secret d m) = secret_id m"
  "secrete_manager_cloud (apply_secret d m) = secrete_manager_cloud m"
  "aws_region (apply_secret d m) = aws_region m"
  "session (apply_secret d m) = session m"
  by (simp_all add: apply_secret_def Let_def)

lemma pick_empty: "pick [] key old = old"
  by (simp add: pick_def contains_def)

lemma normaize_empty: "normaize_connection_dict [] b = []"
  by (simp add: normaize_connection_dict_def dict_comprehension_def)

lemma merge_secret_fields:
  "username (merge_secret (Some d) m) = pick (normaize_connection_dict d True) ''USERNAME'' (username m)"
  "password (merge_secret (Some d) m) = pick (normaize_connection_dict d True) ''PASSWORD'' (password m)"
  "schema (merge_secret (Some d) m) = pick (normaize_connection_dict d True) ''SCHEMA'' (schema m)"
  "host (merge_secret (Some d) m) = pick (normaize_connection_dict d True) ''HOST'' (host m)"
  "port (merge_secret (Some d) m) = pick (normaize_connection_dict d True) ''PORT'' (port m)"
  "snowflake_role (merge_secret (Some d) m) = pick (normaize_connection_dict d True) ''SNOWFLAKE_ROLE'' (snowflake_role m)"
  "snowflake_account (merge_secret (Some d) m) = pick (normaize_connection_dict d True) ''SNOWFLAKE_ACCOUNT'' (snowflake_account m)"
  "snowflake_warehouse (merge_secret (Some d) m) = pick (normaize_connection_dict d True) ''SNOWFLAKE_WAREHOUSE'' (snowflake_warehouse m)"
  by (cases "d = []"; simp add: merge_secret_def apply_secret_fields normaize_empty pick_empty)+

lemma merge_secret_keeps:
  "engine_type (merge_secret s m) = engine_type m"
  "database (merge_secret s m) = database m"
  "sqlite_db_path (merge_secret s m) = sqlite_db_path m"
  "secret_id (merge_secret s m) = secret_id m"
  "secrete_manager_cloud (merge_secret s m) = secrete_manager_cloud m"
  "aws_region (merge_secret s m) = aws_region m"
  "session (merge_secret s m) = session m"
  by (simp_all add: merge_secret_def apply_secret_keeps split: option.splits)

lemma quote_password_keeps:
  "engine_type (quote_password m) = engine_type m"
  "database (quote_password m) = database m"
  "sqlite_db_path (quote_password m) = sqlite_db_path m"
  "username (quote_password m) = username m"
  "schema (quote_password m) = schema m"
  "host (quote_password m) = host m"
  "port (quote_password m) = port m"
  "snowflake_role (quote_password m) = snowflake_role m"
  "snowflake_account (quote_password m) = snowflake_account m"
  "snowflake_warehouse (quote_password m) = snowflake_warehouse m"
  "secret_id (quote_password m) = secret_id m"
  "secrete_manager_cloud (quote_password m) = secrete_manager_cloud m"
  "aws_region (quote_password m) = aws_region m"
  "session (quote_password m) = session m"
  by (simp_all add: quote_password_def)

lemma quote_password_password:
  "password (quote_password m) = (if truthy (password m) then Some (urlquote (fmt (password m))) else password m)"
  by (simp add: quote_password_def)

lemma build_uri_sqlite:
  "engine_type m = ''sqlite'' \<Longrightarrow>
   build_uri env m = (Inr (''sqlite:///'' @ os_path_join (sqlite_db_path m) (database m @ ''.db''), None, False), [])"
  by (simp add: build_uri_def)

lemma os_path_join_tmp: "os_path_join ''/tmp'' ''mydb.db'' = ''/tmp/mydb.db''"
  by (simp add: os_path_join_def startswith_sep_def endswith_sep_def)

lemma create_uri_sqlite:
  assumes "engine_type m = ''sqlite''"
  shows "fst (create_uri env m) =
           Inr (''sqlite:///'' @ os_path_join (sqlite_db_path m) (database m @ ''.db''), None, False)"
proof -
  have sup: "engine_type m \<in> set SUPPORTED_ENGINE"
    by (simp add: assms SUPPORTED_ENGINE_def)
  let ?m = "quote_password (merge_secret (fst (fetch_from_secret env m)) m)"
  have "engine_type ?m = ''sqlite''" "database ?m = database m" "sqlite_db_path ?m = sqlite_db_path m"
    by (simp_all add: quote_password_keeps merge_secret_keeps assms)
  then show ?thesis
    by (simp add: create_uri_supported [OF sup] build_uri_sqlite)
qed

text \<open>
  C5 (as amended). For the engine \<open>sqlite\<close> with database \<open>mydb\<close> and \<open>sqlite_db_path\<close>
  \<open>/tmp\<close>, \<open>create_uri\<close> returns the identifier \<open>sqlite:////tmp/mydb.db\<close>: the scheme
  prefix \<open>sqlite:///\<close> followed by the path \<open>/tmp/mydb.db\<close>, which is the join of the
  directory with the database name and the extension \<open>.db\<close>. The identifier is the same
  whatever the username and the password are.
\<close>

theorem sqlite_uri:
  assumes "engine_type m = ''sqlite''" "database m = ''mydb''" "sqlite_db_path m = ''/tmp''"
  shows "fst (create_uri env m) = Inr (''sqlite:///'' @ ''/tmp/mydb.db'', None, False) \<and>
         os_path_join (sqlite_db_path m) (database m @ ''.db'') = ''/tmp/mydb.db'' \<and>
         fst (create_uri env (m\<lparr>username := u, password := p\<rparr>)) = fst (create_uri env m)"
proof -
  have "fst (create_uri env m) = Inr (''sqlite:///'' @ ''/tmp/mydb.db'', None, False)"
    using create_uri_sqlite [of m env] by (simp add: assms os_path_join_tmp)
  moreover have "fst (create_uri env (m\<lparr>username := u, password := p\<rparr>)) =
      Inr (''sqlite:///'' @ ''/tmp/mydb.db'', None, False)"
    using create_uri_sqlite [of "m\<lparr>username := u, password := p\<rparr>" env]
    by (simp add: assms os_path_join_tmp)
  ultimately show ?thesis by (simp add: assms os_path_join_tmp)
qed

theorem sqlite_uri_witness:
  "engine_type sqlite_manager = ''sqlite'' \<and> database sqlite_manager = ''mydb'' \<and>
   sqlite_db_path sqlite_manager = ''/tmp'' \<and>
   fst (create_uri failing_env sqlite_manager) = Inr (''sqlite:////tmp/mydb.db'', None, False)"
  using sqlite_uri [of sqlite_manager failing_env]
  by (simp add: sqlite_manager_def pg_manager_def)

text \<open>
  C5 as stated fails: the identifier returned is not the bare path \<open>/tmp/mydb.db\<close>; it
  carries the scheme prefix.
\<close>

theorem sqlite_uri_counterexample:
  "fst (create_uri failing_env sqlite_manager) = Inr (''sqlite:////tmp/mydb.db'', None, False) \<and>
   ''sqlite:////tmp/mydb.db'' \<noteq> ''/tmp/mydb.db''"
  using create_uri_sqlite [of sqlite_manager failing_env]
  by (simp add: sqlite_manager_def pg_manager_def os_path_join_tmp)

lemma fetch_failure:
  assumes "truthy (secret_id m)" "truthy (secrete_manager_cloud m)"
    "get_secret env (fmt (secret_id m)) (fmt (secrete_manager_cloud m)) (aws_region m) = Inl e"
  shows "fetch_from_secret env m =
           (None, [GetSecret (fmt (secret_id m)) (fmt (secrete_manager_cloud m)) (aws_region m)])"
  using assms by (simp add: fetch_from_secret_def)

lemma fetch_no_secret_id: "fetch_from_secret env (m\<lparr>secret_id := None\<rparr>) = (None, [])"
  by (simp add: fetch_from_secret_def truthy_def)

lemma quote_password_secret_id:
  "quote_password (m\<lparr>secret_id := x\<rparr>) = (quote_password m)\<lparr>secret_id := x\<rparr>"
  by (simp add: quote_password_def)

lemma build_uri_secret_id: "build_uri env (m\<lparr>secret_id := x\<rparr>) = build_uri env m"
  by (simp add: build_uri_def Let_def split: sum.splits)

lemma build_uri_local:
  assumes "engine_type m \<in> set [''sqlite'', ''postgres'', ''mysql'', ''mariadb'']"
  shows "\<exists>r. build_uri env m = (Inr r, [])"
  using assms by (auto simp: build_uri_def)

text \<open>
  C2 (as amended). When a secret id is supplied and the fetch fails with any exception,
  \<open>fetch_from_secret\<close> catches it and \<open>create_uri\<close> goes on with the caller-supplied
  parameters: its outcome is the one it has without a secret id, the fetch is the first
  collaborator call, and for the engines sqlite, postgres, mysql and mariadb it returns
  a resolved connection.
\<close>

theorem fetch_failure_falls_back:
  assumes "engine_type m \<in> set SUPPORTED_ENGINE"
    "truthy (secret_id m)" "truthy (secrete_manager_cloud m)"
    "get_secret env (fmt (secret_id m)) (fmt (secrete_manager_cloud m)) (aws_region m) = Inl e"
  shows "fst (create_uri env m) = fst (create_uri env (m\<lparr>secret_id := None\<rparr>)) \<and>
         fst (create_uri env m) = fst (build_uri env (quote_password m)) \<and>
         fst (snd (create_uri env m)) = quote_password m \<and>
         snd (snd (create_uri env m)) =
           GetSecret (fmt (secret_id m)) (fmt (secrete_manager_cloud m)) (aws_region m) #
           snd (build_uri env (quote_password m)) \<and>
         (engine_type m \<in> set [''sqlite'', ''postgres'', ''mysql'', ''mariadb''] \<longrightarrow>
            (\<exists>r. fst (create_uri env m) = Inr r))"
proof -
  have sup': "engine_type (m\<lparr>secret_id := None\<rparr>) \<in> set SUPPORTED_ENGINE"
    using assms(1) by simp
  have a: "create_uri env m =
      (fst (build_uri env (quote_password m)), quote_password m,
       GetSecret (fmt (secret_id m)) (fmt (secrete_manager_cloud m)) (aws_region m) #
       snd (build_uri env (quote_password m)))"
    by (simp add: create_uri_supported [OF assms(1)] fetch_failure [OF assms(2,3,4)] merge_secret_def)
  have b: "fst (create_uri env (m\<lparr>secret_id := None\<rparr>)) = fst (build_uri env (quote_password m))"
    by (simp add: create_uri_supported [OF sup'] fetch_no_secret_id merge_secret_def
        quote_password_secret_id build_uri_secret_id)
  have c: "engine_type m \<in> set [''sqlite'', ''postgres'', ''mysql'', ''mariadb''] \<longrightarrow>
            (\<exists>r. fst (build_uri env (quote_password m)) = Inr r)"
  proof
    assume "engine_type m \<in> set [''sqlite'', ''postgres'', ''mysql'', ''mariadb'']"
    then have "engine_type (quote_password m) \<in> set [''sqlite'', ''postgres'', ''mysql'', ''mariadb'']"
      by (simp add: quote_password_keeps)
    from build_uri_local [OF this, of env] show "\<exists>r. fst (build_uri env (quote_password m)) = Inr r"
      by auto
  qed
  show ?thesis using c by (simp add: a b)
qed

lemma failing_env_get_secret:
  "get_secret failing_env ''sid'' ''aws'' ''us-east-1'' = Inl (External ''ResourceNotFoundException'')"
  by (simp add: get_secret_def failing_env_def)

lemma create_uri_pg_failed_fetch:
  "create_uri failing_env (pg_manager\<lparr>secret_id := Some ''sid''\<rparr>) =
     (Inr (''postgres+pg8000://u:p%40ss@h:5432/d'', Some [(''client_encoding'', ''utf8'')], True),
      pg_manager\<lparr>secret_id := Some ''sid'', password := Some ''p%40ss''\<rparr>,
      [GetSecret ''sid'' ''aws'' ''us-east-1''])"
proof -
  have sup: "engine_type (pg_manager\<lparr>secret_id := Some ''sid''\<rparr>) \<in> set SUPPORTED_ENGINE"
    by (simp add: pg_manager_def SUPPORTED_ENGINE_def)
  have f: "fetch_from_secret failing_env (pg_manager\<lparr>secret_id := Some ''sid''\<rparr>) =
      (None, [GetSecret ''sid'' ''aws'' ''us-east-1''])"
    by (simp add: fetch_from_secret_def pg_manager_def truthy_def fmt_def failing_env_get_secret)
  have q: "quote_password (pg_manager\<lparr>secret_id := Some ''sid''\<rparr>) =
      pg_manager\<lparr>secret_id := Some ''sid'', password := Some ''p%40ss''\<rparr>"
    by (simp add: quote_password_def pg_manager_def truthy_def fmt_def urlquote_pass)
  have b: "build_uri failing_env (pg_manager\<lparr>secret_id := Some ''sid'', password := Some ''p%40ss''\<rparr>) =
     (Inr (''postgres+pg8000://u:p%40ss@h:5432/d'', Some [(''client_encoding'', ''utf8'')], True), [])"
    by (simp add: build_uri_def pg_manager_def fmt_def)
  show ?thesis
    by (simp add: create_uri_supported [OF sup] f merge_secret_def q b)
qed

text \<open>
  C2 as stated fails: with a secret id whose fetch raises, \<open>create_uri\<close> returns the
  identifier built from the explicit parameters and does not raise the fetch error.
\<close>

theorem fetch_failure_counterexample:
  "truthy (secret_id (pg_manager\<lparr>secret_id := Some ''sid''\<rparr>)) \<and>
   get_secret failing_env ''sid'' ''aws'' ''us-east-1'' = Inl (External ''ResourceNotFoundException'') \<and>
   fst (create_uri failing_env (pg_manager\<lparr>secret_id := Some ''sid''\<rparr>)) =
     Inr (''postgres+pg8000://u:p%40ss@h:5432/d'', Some [(''client_encoding'', ''utf8'')], True) \<and>
   fst (create_uri failing_env (pg_manager\<lparr>secret_id := Some ''sid''\<rparr>)) \<noteq>
     Inl (External ''ResourceNotFoundException'')"
  by (simp add: create_uri_pg_failed_fetch failing_env_get_secret truthy_def)

theorem fetch_failure_falls_back_witness:
  "engine_type (pg_manager\<lparr>secret_id := Some ''sid''\<rparr>) \<in> set SUPPORTED_ENGINE \<and>
   truthy (secret_id (pg_manager\<lparr>secret_id := Some ''sid''\<rparr>)) \<and>
   truthy (secrete_manager_cloud (pg_manager\<lparr>secret_id := Some ''sid''\<rparr>)) \<and>
   get_secret failing_env ''sid'' ''aws'' ''us-east-1'' = Inl (External ''ResourceNotFoundException'') \<and>
   engine_type (pg_manager\<lparr>secret_id := Some ''sid''\<rparr>) \<in> set [''sqlite'', ''postgres'', ''mysql'', ''mariadb''] \<and>
   fst (create_uri failing_env (pg_manager\<lparr>secret_id := Some ''sid''\<rparr>)) =
     fst (create_uri failing_env (pg_manager\<lparr>secret_id := Some ''sid'', secret_id := None\<rparr>))"
proof -
  let ?m = "pg_manager\<lparr>secret_id := Some ''sid''\<rparr>"
  have 1: "engine_type ?m \<in> set SUPPORTED_ENGINE" by (simp add: pg_manager_def SUPPORTED_ENGINE_def)
  have 2: "truthy (secret_id ?m)" by (simp add: truthy_def)
  have 3: "truthy (secrete_manager_cloud ?m)" by (simp add: truthy_def pg_manager_def)
  have 4: "get_secret failing_env (fmt (secret_id ?m)) (fmt (secrete_manager_cloud ?m)) (aws_region ?m) =
             Inl (External ''ResourceNotFoundException'')"
    by (simp add: pg_manager_def fmt_def failing_env_get_secret)
  have 5: "engine_type ?m \<in> set [''sqlite'', ''postgres'', ''mysql'', ''mariadb'']"
    by (simp add: pg_manager_def)
  from fetch_failure_falls_back [OF 1 2 3 4]
  have "fst (create_uri failing_env ?m) = fst (create_uri failing_env (?m\<lparr>secret_id := None\<rparr>))"
    by blast
  with 1 2 3 5 failing_env_get_secret show ?thesis by simp
qed

lemma normaize_contains:
  "contains (normaize_connection_dict d True) key \<longleftrightarrow> (\<exists>k \<in> fst ` set d. upper k = key)"
  by (auto simp: contains_def normaize_connection_dict_def dict_comprehension_keys)

lemma normaize_getitem:
  assumes "getitem (normaize_connection_dict d True) key = Some v"
  shows "\<exists>k. (k, v) \<in> set d \<and> upper k = key"
proof -
  from assms have "map_of (rev (map (apfst upper) d)) key = Some v"
    by (simp add: getitem_def normaize_connection_dict_def dict_comprehension_map_of)
  then have "(key, v) \<in> set (rev (map (apfst upper) d))" by (rule map_of_SomeD)
  then show ?thesis by auto
qed

lemma contains_getitem: "contains d key \<Longrightarrow> \<exists>v. getitem d key = Some v"
  by (simp add: contains_def getitem_def) (metis domD dom_map_of_conv_image_fst)

text \<open>
  C3. When the fetch yields a secret, its keys are normalised to upper case and, for each of
  \<open>USERNAME\<close>, \<open>PASSWORD\<close>, \<open>SCHEMA\<close>, \<open>HOST\<close>, \<open>PORT\<close>, \<open>SNOWFLAKE_ROLE\<close>,
  \<open>SNOWFLAKE_ACCOUNT\<close> and \<open>SNOWFLAKE_WAREHOUSE\<close>, the field takes the secret's value when
  the key is present and keeps the caller-supplied value when it is absent. A key is
  present exactly when some key of the fetched secret upper-cases to it, and the value
  read is a value of the fetched secret under such a key. The object that \<open>create_uri\<close>
  leaves is this merged object with its password percent-encoded; the other seven fields
  are the merged ones.
\<close>

theorem secret_overrides:
  assumes "engine_type m \<in> set SUPPORTED_ENGINE" "fst (fetch_from_secret env m) = Some secret0"
  shows "(let secret = normaize_connection_dict secret0 True;
              m' = merge_secret (Some secret0) m
          in fst (snd (create_uri env m)) = quote_password m' \<and>
             username m' = (if contains secret ''USERNAME'' then getitem secret ''USERNAME'' else username m) \<and>
             password m' = (if contains secret ''PASSWORD'' then getitem secret ''PASSWORD'' else password m) \<and>
             schema m' = (if contains secret ''SCHEMA'' then getitem secret ''SCHEMA'' else schema m) \<and>
             host m' = (if contains secret ''HOST'' then getitem secret ''HOST'' else host m) \<and>
             port m' = (if contains secret ''PORT'' then getitem secret ''PORT'' else port m) \<and>
             snowflake_role m' =
               (if contains secret ''SNOWFLAKE_ROLE'' then getitem secret ''SNOWFLAKE_ROLE''
                else snowflake_role m) \<and>
             snowflake_account m' =
               (if contains secret ''SNOWFLAKE_ACCOUNT'' then getitem secret ''SNOWFLAKE_ACCOUNT''
                else snowflake_account m) \<and>
             snowflake_warehouse m' =
               (if contains secret ''SNOWFLAKE_WAREHOUSE'' then getitem secret ''SNOWFLAKE_WAREHOUSE''
                else snowflake_warehouse m) \<and>
             (\<forall>key. contains secret key \<longleftrightarrow> (\<exists>k \<in> fst ` set secret0. upper k = key)) \<and>
             (\<forall>key. contains secret key \<longrightarrow> (\<exists>v. getitem secret key = Some v)) \<and>
             (\<forall>key v. getitem secret key = Some v \<longrightarrow> (\<exists>k. (k, v) \<in> set secret0 \<and> upper k = key)) \<and>
             username (quote_password m') = username m' \<and> schema (quote_password m') = schema m' \<and>
             host (quote_password m') = host m' \<and> port (quote_password m') = port m' \<and>
             snowflake_role (quote_password m') = snowflake_role m' \<and>
             snowflake_account (quote_password m') = snowflake_account m' \<and>
             snowflake_warehouse (quote_password m') = snowflake_warehouse m')"
proof -
  have st: "fst (snd (create_uri env m)) = quote_password (merge_secret (Some secret0) m)"
    by (simp add: create_uri_supported [OF assms(1)] assms(2))
  have g: "\<forall>key v. getitem (normaize_connection_dict secret0 True) key = Some v \<longrightarrow>
      (\<exists>k. (k, v) \<in> set secret0 \<and> upper k = key)"
    using normaize_getitem by blast
  have c: "\<forall>key. contains (normaize_connection_dict secret0 True) key \<longrightarrow>
      (\<exists>v. getitem (normaize_connection_dict secret0 True) key = Some v)"
    using contains_getitem by blast
  have k: "\<forall>key. contains (normaize_connection_dict secret0 True) key \<longleftrightarrow>
      (\<exists>k \<in> fst ` set secret0. upper k = key)"
    using normaize_contains by blast
  show ?thesis
    unfolding Let_def
    using g c k by (simp add: st merge_secret_fields pick_def quote_password_keeps)
qed

lemma secret_env_fetch:
  "fetch_from_secret (secret_env d) (pg_manager\<lparr>secret_id := Some ''sid''\<rparr>) =
     (Some d, [GetSecret ''sid'' ''aws'' ''us-east-1''])"
  by (simp add: fetch_from_secret_def get_secret_def secret_env_def failing_env_def pg_manager_def
      truthy_def fmt_def)

theorem secret_overrides_witness:
  "engine_type (pg_manager\<lparr>secret_id := Some ''sid''\<rparr>) \<in> set SUPPORTED_ENGINE \<and>
   fst (fetch_from_secret (secret_env [(''username'', ''secret'')]) (pg_manager\<lparr>secret_id := Some ''sid''\<rparr>)) =
     Some [(''username'', ''secret'')] \<and>
   contains (normaize_connection_dict [(''username'', ''secret'')] True) ''USERNAME'' \<and>
   \<not> contains (normaize_connection_dict [(''username'', ''secret'')] True) ''HOST'' \<and>
   username (fst (snd (create_uri (secret_env [(''username'', ''secret'')])
      (pg_manager\<lparr>secret_id := Some ''sid''\<rparr>)))) = Some ''secret'' \<and>
   host (fst (snd (create_uri (secret_env [(''username'', ''secret'')])
      (pg_manager\<lparr>secret_id := Some ''sid''\<rparr>)))) = Some ''h''"
proof -
  let ?m = "pg_manager\<lparr>secret_id := Some ''sid''\<rparr>"
  let ?d = "[(''username'', ''secret'')]"
  have 1: "engine_type ?m \<in> set SUPPORTED_ENGINE" by (simp add: pg_manager_def SUPPORTED_ENGINE_def)
  have 2: "fst (fetch_from_secret (secret_env ?d) ?m) = Some ?d" by (simp add: secret_env_fetch)
  have n: "normaize_connection_dict ?d True = [(''USERNAME'', ''secret'')]" by code_simp
  have 3: "contains (normaize_connection_dict ?d True) ''USERNAME''"
    "\<not> contains (normaize_connection_dict ?d True) ''HOST''"
    "getitem (normaize_connection_dict ?d True) ''USERNAME'' = Some ''secret''"
    by (simp_all add: n contains_def getitem_def)
  have h: "host ?m = Some ''h''" by (simp add: pg_manager_def)
  from secret_overrides [OF 1 2] 
  have "username (fst (snd (create_uri (secret_env ?d) ?m))) = Some ''secret''"
    "host (fst (snd (create_uri (secret_env ?d) ?m))) = Some ''h''"
    unfolding Let_def using 3 h by simp_all
  with 1 2 3 show ?thesis by simp
qed

section \<open>Properties of \<open>urlquote\<close>\<close>

lemma quote_byte_length: "1 \<le> length (quote_byte safe c)"
  by (simp add: quote_byte_def)

lemma quote_length_le: "length s \<le> length (quote s safe)"
proof (induction s)
  case Nil
  then show ?case by (simp add: quote_def)
next
  case (Cons c s)
  then show ?case using quote_byte_length [of safe c] by (simp add: quote_def)
qed

lemma quote_length_less:
  assumes "c \<in> set s" "\<not> always_safe c" "c \<notin> set safe"
  shows "length s < length (quote s safe)"
  using assms
proof (induction s)
  case Nil
  then show ?case by simp
next
  case (Cons a s)
  show ?case
  proof (cases "a = c")
    case True
    have "length (quote_byte safe a) = 3" using Cons.prems True by (simp add: quote_byte_def)
    moreover have "quote (a # s) safe = quote_byte safe a @ quote s safe" by (simp add: quote_def)
    ultimately show ?thesis using quote_length_le [of s safe] by simp
  next
    case False
    then have "c \<in> set s" using Cons.prems by simp
    then have "length s < length (quote s safe)" using Cons by simp
    moreover have "quote (a # s) safe = quote_byte safe a @ quote s safe" by (simp add: quote_def)
    ultimately show ?thesis using quote_byte_length [of safe a] by simp
  qed
qed

lemma urlquote_length_less:
  assumes "c \<in> set s" "\<not> always_safe c" "c \<noteq> CHR '' ''"
  shows "length s < length (urlquote s)"
proof (cases "CHR '' '' \<in> set s")
  case True
  have "length s < length (quote s '' '')"
    by (rule quote_length_less [OF assms(1,2)]) (simp add: assms(3))
  then show ?thesis using True by (simp add: urlquote_def quote_plus_def)
next
  case False
  have "length s < length (quote s [])"
    by (rule quote_length_less [OF assms(1,2)]) simp
  then show ?thesis using False by (simp add: urlquote_def quote_plus_def)
qed

lemma not_safe_percent: "\<not> always_safe CHR ''%''" "\<not> always_safe CHR ''+''" "\<not> always_safe CHR '' ''"
  by (simp_all add: always_safe_def)

lemma quote_mem:
  assumes "c \<in> set s" "x \<in> set (quote_byte safe c)"
  shows "x \<in> set (quote s safe)"
  using assms by (auto simp: quote_def)

lemma urlquote_has_escape:
  assumes "c \<in> set s" "\<not> always_safe c"
  shows "CHR ''%'' \<in> set (urlquote s) \<or> CHR ''+'' \<in> set (urlquote s)"
proof (cases "c = CHR '' ''")
  case True
  then have sp: "CHR '' '' \<in> set s" using assms(1) by simp
  have "CHR '' '' \<in> set (quote_byte '' '' c)" using True by (simp add: quote_byte_def)
  then have "CHR '' '' \<in> set (quote s '' '')" by (rule quote_mem [OF assms(1)])
  then have "CHR ''+'' \<in> set (map (\<lambda>c. if c = CHR '' '' then CHR ''+'' else c) (quote s '' ''))"
    by force
  then show ?thesis using sp by (simp add: urlquote_def quote_plus_def)
next
  case False
  have a: "CHR ''%'' \<in> set (quote_byte safe c)" if "set safe \<subseteq> {CHR '' ''}" for safe
    using that False assms(2) by (auto simp: quote_byte_def)
  show ?thesis
  proof (cases "CHR '' '' \<in> set s")
    case True
    have "CHR ''%'' \<in> set (quote s '' '')" by (rule quote_mem [OF assms(1)]) (rule a, simp)
    then have "CHR ''%'' \<in> set (map (\<lambda>c. if c = CHR '' '' then CHR ''+'' else c) (quote s '' ''))"
      by force
    then show ?thesis using True by (simp add: urlquote_def quote_plus_def)
  next
    case F: False
    have "CHR ''%'' \<in> set (quote s [])" by (rule quote_mem [OF assms(1)]) (rule a, simp)
    then show ?thesis using F by (simp add: urlquote_def quote_plus_def)
  qed
qed

lemma urlquote_twice_length:
  assumes "c \<in> set s" "\<not> always_safe c"
  shows "length (urlquote s) < length (urlquote (urlquote s))"
  using urlquote_has_escape [OF assms]
proof
  assume "CHR ''%'' \<in> set (urlquote s)"
  then show ?thesis by (rule urlquote_length_less) (simp_all add: not_safe_percent)
next
  assume "CHR ''+'' \<in> set (urlquote s)"
  then show ?thesis by (rule urlquote_length_less) (simp_all add: not_safe_percent)
qed

lemma urlquote_twice_neq:
  assumes "c \<in> set s" "\<not> always_safe c"
  shows "urlquote (urlquote s) \<noteq> urlquote s"
  using urlquote_twice_length [OF assms] by auto

lemma urlquote_nonempty: "s \<noteq> [] \<Longrightarrow> urlquote s \<noteq> []"
proof -
  assume "s \<noteq> []"
  then have "0 < length s" by simp
  also have "length s \<le> length (urlquote s)"
    by (simp add: urlquote_def quote_plus_def quote_length_le)
  finally show ?thesis by auto
qed

section \<open>Calling \<open>create_uri\<close> twice\<close>

lemma fetch_from_secret_same:
  assumes "secret_id m' = secret_id m" "secrete_manager_cloud m' = secrete_manager_cloud m"
    "aws_region m' = aws_region m"
  shows "fetch_from_secret env m' = fetch_from_secret env m"
  unfolding fetch_from_secret_def assms ..

lemma create_uri_state:
  assumes "engine_type m \<in> set SUPPORTED_ENGINE"
  shows "fst (snd (create_uri env m)) = quote_password (merge_secret (fst (fetch_from_secret env m)) m)"
  by (simp add: create_uri_supported [OF assms])

lemma create_uri_result:
  assumes "engine_type m \<in> set SUPPORTED_ENGINE"
  shows "fst (create_uri env m) =
           fst (build_uri env (quote_password (merge_secret (fst (fetch_from_secret env m)) m)))"
  by (simp add: create_uri_supported [OF assms])

lemma merge_secret_again:
  "username (merge_secret s (quote_password (merge_secret s m))) = username (merge_secret s m)"
  "host (merge_secret s (quote_password (merge_secret s m))) = host (merge_secret s m)"
  "port (merge_secret s (quote_password (merge_secret s m))) = port (merge_secret s m)"
proof -
  show "username (merge_secret s (quote_password (merge_secret s m))) = username (merge_secret s m)"
  proof (cases s)
    case None
    then show ?thesis by (simp add: merge_secret_def quote_password_keeps)
  next
    case (Some d)
    then show ?thesis by (simp add: merge_secret_fields quote_password_keeps pick_def)
  qed
  show "host (merge_secret s (quote_password (merge_secret s m))) = host (merge_secret s m)"
  proof (cases s)
    case None
    then show ?thesis by (simp add: merge_secret_def quote_password_keeps)
  next
    case (Some d)
    then show ?thesis by (simp add: merge_secret_fields quote_password_keeps pick_def)
  qed
  show "port (merge_secret s (quote_password (merge_secret s m))) = port (merge_secret s m)"
  proof (cases s)
    case None
    then show ?thesis by (simp add: merge_secret_def quote_password_keeps)
  next
    case (Some d)
    then show ?thesis by (simp add: merge_secret_fields quote_password_keeps pick_def)
  qed
qed

lemma sandwich_neq: "x \<noteq> y \<Longrightarrow> a @ x @ b \<noteq> a @ y @ (b :: 'a list)"
  by simp

lemma merge_secret_password_kept:
  assumes "\<forall>d. s = Some d \<longrightarrow> \<not> contains (normaize_connection_dict d True) ''PASSWORD''"
  shows "password (merge_secret s m) = password m"
proof (cases s)
  case None
  then show ?thesis by (simp add: merge_secret_def)
next
  case (Some d)
  then show ?thesis using assms by (simp add: merge_secret_fields pick_def)
qed

lemma build_uri_postgres:
  "engine_type m = ''postgres'' \<Longrightarrow>
   fst (build_uri env m) =
     Inr (''postgres+pg8000://'' @ fmt (username m) @ '':'' @ fmt (password m) @ ''@'' @
          fmt (host m) @ '':'' @ fmt (port m) @ ''/'' @ database m,
          Some [(''client_encoding'', ''utf8'')], True)"
  by (simp add: build_uri_def)

lemma build_uri_mysql:
  "engine_type m \<in> set [''mysql'', ''mariadb''] \<Longrightarrow>
   fst (build_uri env m) =
     Inr (''mysql+pymysql://'' @ fmt (username m) @ '':'' @ fmt (password m) @ ''@'' @
          fmt (host m) @ '':'' @ fmt (port m) @ ''/'' @ database m @ ''?charset=utf8mb4'',
          None, False)"
  by (auto simp: build_uri_def)

lemma urlquote_pass_twice: "urlquote ''p%40ss'' = ''p%2540ss''"
  by code_simp

text \<open>
  C9 (as amended). \<open>create_uri\<close> stores the percent-encoded password back into the object.
  For every object with a supported engine whose password contains a character that
  \<open>urlquote\<close> does not leave as it is, and whose secret (if one is fetched) supplies no
  password, the password held after one call is the encoding of the original, after a
  second call the encoding of the encoding, and the two differ. For the engines postgres,
  mysql and mariadb, whose identifier embeds the password, both calls return an identifier
  and the two identifiers differ. Literal instance: \<open>p@ss\<close>, \<open>p%40ss\<close>, \<open>p%2540ss\<close>.
\<close>

theorem create_uri_twice:
  assumes "engine_type m \<in> set SUPPORTED_ENGINE"
    "password m = Some p" "c \<in> set p" "\<not> always_safe c"
    "\<forall>d. fst (fetch_from_secret env m) = Some d \<longrightarrow>
           \<not> contains (normaize_connection_dict d True) ''PASSWORD''"
  shows "(let m1 = fst (snd (create_uri env m)); m2 = fst (snd (create_uri env m1))
          in password m1 = Some (urlquote p) \<and> password m2 = Some (urlquote (urlquote p)) \<and>
             urlquote (urlquote p) \<noteq> urlquote p \<and>
             (engine_type m \<in> set [''postgres'', ''mysql'', ''mariadb''] \<longrightarrow>
                (\<exists>u1 u2 o1 o2 f1 f2.
                   fst (create_uri env m) = Inr (u1, o1, f1) \<and>
                   fst (create_uri env m1) = Inr (u2, o2, f2) \<and> u1 \<noteq> u2)))
         \<and> urlquote ''p@ss'' = ''p%40ss'' \<and> urlquote ''p%40ss'' = ''p%2540ss''"
proof -
  let ?s = "fst (fetch_from_secret env m)"
  let ?M = "merge_secret ?s m"
  let ?m1 = "quote_password ?M"
  let ?M2 = "merge_secret ?s ?m1"
  let ?m2 = "quote_password ?M2"
  have pne: "p \<noteq> []" using assms(3) by auto
  have qne: "urlquote p \<noteq> []" by (rule urlquote_nonempty [OF pne])
  have neq: "urlquote (urlquote p) \<noteq> urlquote p" by (rule urlquote_twice_neq [OF assms(3,4)])
  have m1: "fst (snd (create_uri env m)) = ?m1" by (rule create_uri_state [OF assms(1)])
  have sup1: "engine_type ?m1 \<in> set SUPPORTED_ENGINE"
    using assms(1) by (simp add: quote_password_keeps merge_secret_keeps)
  have f1: "fetch_from_secret env ?m1 = fetch_from_secret env m"
    by (rule fetch_from_secret_same) (simp_all add: quote_password_keeps merge_secret_keeps)
  have m2: "fst (snd (create_uri env ?m1)) = ?m2"
    by (simp add: create_uri_state [OF sup1] f1)
  have pM: "password ?M = Some p"
    using merge_secret_password_kept [OF assms(5), of m] assms(2) by simp
  have p1: "password ?m1 = Some (urlquote p)"
    by (simp add: quote_password_password pM truthy_def fmt_def pne)
  have pM2: "password ?M2 = Some (urlquote p)"
    using merge_secret_password_kept [OF assms(5), of ?m1] p1 by simp
  have p2: "password ?m2 = Some (urlquote (urlquote p))"
    by (simp add: quote_password_password pM2 truthy_def fmt_def qne)
  have r1: "fst (create_uri env m) = fst (build_uri env ?m1)" by (rule create_uri_result [OF assms(1)])
  have r2: "fst (create_uri env ?m1) = fst (build_uri env ?m2)"
    by (simp add: create_uri_result [OF sup1] f1)
  have same: "username ?m2 = username ?m1" "host ?m2 = host ?m1" "port ?m2 = port ?m1"
    "database ?m2 = database ?m1" "engine_type ?m2 = engine_type m" "engine_type ?m1 = engine_type m"
    by (simp_all add: quote_password_keeps merge_secret_again merge_secret_keeps)
  have diff: "\<exists>u1 u2 o1 o2 f1 f2.
                   fst (create_uri env m) = Inr (u1, o1, f1) \<and>
                   fst (create_uri env ?m1) = Inr (u2, o2, f2) \<and> u1 \<noteq> u2"
    if e: "engine_type m \<in> set [''postgres'', ''mysql'', ''mariadb'']"
  proof (cases "engine_type m = ''postgres''")
    case True
    define A where "A = ''postgres+pg8000://'' @ fmt (username ?m1) @ '':''"
    define B where "B = ''@'' @ fmt (host ?m1) @ '':'' @ fmt (port ?m1) @ ''/'' @ database ?m1"
    have "fst (build_uri env ?m1) =
            Inr (A @ urlquote p @ B, Some [(''client_encoding'', ''utf8'')], True)"
      using build_uri_postgres [of ?m1 env] True by (simp add: same(6) p1 fmt_def A_def B_def)
    moreover have "fst (build_uri env ?m2) =
            Inr (A @ urlquote (urlquote p) @ B, Some [(''client_encoding'', ''utf8'')], True)"
      using build_uri_postgres [of ?m2 env] True by (simp add: same p2 fmt_def A_def B_def)
    moreover have "A @ urlquote p @ B \<noteq> A @ urlquote (urlquote p) @ B"
      using neq by (intro sandwich_neq) simp
    ultimately show ?thesis unfolding r1 r2
      apply (intro exI conjI)
        apply assumption
       apply assumption
      apply assumption
      done
  next
    case False
    then have my: "engine_type m \<in> set [''mysql'', ''mariadb'']" using e by auto
    define A where "A = ''mysql+pymysql://'' @ fmt (username ?m1) @ '':''"
    define B where "B = ''@'' @ fmt (host ?m1) @ '':'' @ fmt (port ?m1) @ ''/'' @ database ?m1 @
                         ''?charset=utf8mb4''"
    have "fst (build_uri env ?m1) = Inr (A @ urlquote p @ B, None, False)"
      using build_uri_mysql [of ?m1 env] my by (simp add: same(6) p1 fmt_def A_def B_def)
    moreover have "fst (build_uri env ?m2) = Inr (A @ urlquote (urlquote p) @ B, None, False)"
      using build_uri_mysql [of ?m2 env] my by (simp add: same p2 fmt_def A_def B_def)
    moreover have "A @ urlquote p @ B \<noteq> A @ urlquote (urlquote p) @ B"
      using neq by (intro sandwich_neq) simp
    ultimately show ?thesis unfolding r1 r2
      apply (intro exI conjI)
        apply assumption
       apply assumption
      apply assumption
      done
  qed
  have main: "password ?m1 = Some (urlquote p) \<and> password ?m2 = Some (urlquote (urlquote p)) \<and>
             urlquote (urlquote p) \<noteq> urlquote p \<and>
             (engine_type m \<in> set [''postgres'', ''mysql'', ''mariadb''] \<longrightarrow>
                (\<exists>u1 u2 o1 o2 f1 f2.
                   fst (create_uri env m) = Inr (u1, o1, f1) \<and>
                   fst (create_uri env ?m1) = Inr (u2, o2, f2) \<and> u1 \<noteq> u2))"
    using p1 p2 neq diff by blast
  show ?thesis
    unfolding Let_def m1 m2
    using main urlquote_pass urlquote_pass_twice by blast
qed

lemma fetch_no_secret_pg: "fst (fetch_from_secret failing_env pg_manager) = None"
  by (simp add: fetch_from_secret_def pg_manager_def truthy_def)

theorem create_uri_twice_witness:
  "engine_type pg_manager \<in> set SUPPORTED_ENGINE \<and> password pg_manager = Some ''p@ss'' \<and>
   CHR ''@'' \<in> set ''p@ss'' \<and> \<not> always_safe CHR ''@'' \<and>
   fst (fetch_from_secret failing_env pg_manager) = None \<and>
   engine_type pg_manager \<in> set [''postgres'', ''mysql'', ''mariadb''] \<and>
   password (fst (snd (create_uri failing_env pg_manager))) = Some ''p%40ss'' \<and>
   password (fst (snd (create_uri failing_env (fst (snd (create_uri failing_env pg_manager)))))) =
     Some ''p%2540ss'' \<and>
   fst (create_uri failing_env (fst (snd (create_uri failing_env pg_manager)))) \<noteq>
     fst (create_uri failing_env pg_manager)"
proof -
  have 1: "engine_type pg_manager \<in> set SUPPORTED_ENGINE"
    by (simp add: pg_manager_def SUPPORTED_ENGINE_def)
  have 2: "password pg_manager = Some ''p@ss''" by (simp add: pg_manager_def)
  have 3: "CHR ''@'' \<in> set ''p@ss''" by simp
  have 4: "\<not> always_safe CHR ''@''" by (simp add: always_safe_def)
  have 5: "\<forall>d. fst (fetch_from_secret failing_env pg_manager) = Some d \<longrightarrow>
           \<not> contains (normaize_connection_dict d True) ''PASSWORD''"
    by (simp add: fetch_no_secret_pg)
  have 6: "engine_type pg_manager \<in> set [''postgres'', ''mysql'', ''mariadb'']"
    by (simp add: pg_manager_def)
  note t = create_uri_twice [OF 1 2 3 4 5, unfolded Let_def]
  from t have a: "password (fst (snd (create_uri failing_env pg_manager))) = Some ''p%40ss''"
    by (simp add: urlquote_pass)
  from t have b: "password (fst (snd (create_uri failing_env (fst (snd (create_uri failing_env pg_manager)))))) =
     Some ''p%2540ss''"
    by (simp add: urlquote_pass urlquote_pass_twice)
  from t 6 have "\<exists>u1 u2 o1 o2 f1 f2.
       fst (create_uri failing_env pg_manager) = Inr (u1, o1, f1) \<and>
       fst (create_uri failing_env (fst (snd (create_uri failing_env pg_manager)))) = Inr (u2, o2, f2) \<and>
       u1 \<noteq> u2"
    by blast
  then have c: "fst (create_uri failing_env (fst (snd (create_uri failing_env pg_manager)))) \<noteq>
     fst (create_uri failing_env pg_manager)"
    by auto
  from 1 2 3 4 6 a b c fetch_no_secret_pg show ?thesis by blast
qed

text \<open>
  C9 as stated fails for the engine \<open>sqlite\<close>: the password \<open>p@ss\<close> contains a reserved
  character, yet two successive calls return the same identifier, which does not embed
  the password.
\<close>

theorem create_uri_twice_counterexample:
  "password sqlite_manager = Some ''p@ss'' \<and> \<not> always_safe CHR ''@'' \<and>
   fst (create_uri failing_env sqlite_manager) = Inr (''sqlite:////tmp/mydb.db'', None, False) \<and>
   fst (create_uri failing_env (fst (snd (create_uri failing_env sqlite_manager)))) =
     Inr (''sqlite:////tmp/mydb.db'', None, False)"
proof -
  let ?m1 = "fst (snd (create_uri failing_env sqlite_manager))"
  have sup: "engine_type sqlite_manager \<in> set SUPPORTED_ENGINE"
    by (simp add: sqlite_manager_def SUPPORTED_ENGINE_def)
  have k: "engine_type ?m1 = ''sqlite''" "database ?m1 = ''mydb''" "sqlite_db_path ?m1 = ''/tmp''"
    unfolding create_uri_state [OF sup]
    by (simp_all add: quote_password_keeps merge_secret_keeps sqlite_manager_def pg_manager_def)
  have a: "fst (create_uri failing_env sqlite_manager) = Inr (''sqlite:////tmp/mydb.db'', None, False)"
    using create_uri_sqlite [of sqlite_manager failing_env]
    by (simp add: sqlite_manager_def pg_manager_def os_path_join_tmp)
  have b: "fst (create_uri failing_env ?m1) = Inr (''sqlite:////tmp/mydb.db'', None, False)"
    using create_uri_sqlite [of ?m1 failing_env, OF k(1)] by (simp add: k os_path_join_tmp)
  have p: "password sqlite_manager = Some ''p@ss''" by (simp add: sqlite_manager_def pg_manager_def)
  have s: "\<not> always_safe CHR ''@''" by (simp add: always_safe_def)
  from a b p s show ?thesis by blast
qed

section \<open>Properties of \<open>Operations.execute\<close>\<close>

lemma execute_unfold:
  "execute env sql panda_df table_name chunk_size exist_action as_df =
     ((case close env of
         Some e \<Rightarrow> Inl e
       | None \<Rightarrow> fst (execute_body env sql panda_df table_name chunk_size exist_action as_df)),
      snd (execute_body env sql panda_df table_name chunk_size exist_action as_df) @ [Close])"
  by (simp add: execute_def case_prod_beta split: option.splits)

lemma execute_body_no_close:
  "Close \<notin> set (snd (execute_body env sql panda_df table_name chunk_size exist_action as_df))"
  by (simp add: execute_body_def split: option.splits sum.splits)

lemma execute_body_commit:
  "Commit \<in> set (snd (execute_body env sql panda_df table_name chunk_size exist_action as_df)) \<longleftrightarrow>
     (case panda_df of
        Some df \<Rightarrow> df \<noteq> [] \<and> to_sql env = None
      | None \<Rightarrow> truthy sql \<and> \<not> as_df \<and> (\<exists>r. session_execute env = Inr r \<and> \<not> returns_rows r))"
  by (auto simp: execute_body_def split: option.splits sum.splits)

lemma execute_body_none:
  "fst (execute_body env sql panda_df table_name chunk_size exist_action as_df) = Inr PyNone \<Longrightarrow>
   Commit \<in> set (snd (execute_body env sql panda_df table_name chunk_size exist_action as_df))"
  by (auto simp: execute_body_def split: option.splits sum.splits if_splits)

lemma execute_body_rows:
  "fst (execute_body env sql panda_df table_name chunk_size exist_action as_df) = Inr r \<Longrightarrow>
   r \<noteq> PyNone \<Longrightarrow>
   Commit \<notin> set (snd (execute_body env sql panda_df table_name chunk_size exist_action as_df))"
  by (auto simp: execute_body_def split: option.splits sum.splits if_splits)

text \<open>
  C7 (as amended). On every path through \<open>Operations.execute\<close>, whether it returns or
  raises, \<open>session.close()\<close> is called exactly once and is the last call made. A commit
  is made exactly when a non-empty DataFrame was written by \<open>to_sql\<close> without an
  exception, or a statement was executed, not as \<open>get_df\<close>, and its result returns no
  rows. Hence a call that returns \<open>None\<close> has committed before returning, and a call that
  returns rows or a DataFrame has not committed.
\<close>

theorem execute_commit_close:
  "(let (res, evs) = execute env sql panda_df table_name chunk_size exist_action as_df
    in (\<exists>pre. evs = pre @ [Close] \<and> Close \<notin> set pre) \<and>
       (Commit \<in> set evs \<longleftrightarrow>
          (case panda_df of
             Some df \<Rightarrow> df \<noteq> [] \<and> to_sql env = None
           | None \<Rightarrow> truthy sql \<and> \<not> as_df \<and>
                      (\<exists>r. session_execute env = Inr r \<and> \<not> returns_rows r))) \<and>
       (res = Inr PyNone \<longrightarrow> Commit \<in> set evs) \<and>
       (\<forall>r. res = Inr r \<and> r \<noteq> PyNone \<longrightarrow> Commit \<notin> set evs))"
proof -
  let ?b = "execute_body env sql panda_df table_name chunk_size exist_action as_df"
  have 1: "\<exists>pre. snd ?b @ [Close] = pre @ [Close] \<and> Close \<notin> set pre"
    using execute_body_no_close by blast
  have 2: "Commit \<in> set (snd ?b @ [Close]) \<longleftrightarrow>
          (case panda_df of
             Some df \<Rightarrow> df \<noteq> [] \<and> to_sql env = None
           | None \<Rightarrow> truthy sql \<and> \<not> as_df \<and>
                      (\<exists>r. session_execute env = Inr r \<and> \<not> returns_rows r))"
    using execute_body_commit [of env sql panda_df table_name chunk_size exist_action as_df] by simp
  have 3: "(case close env of Some e \<Rightarrow> Inl e | None \<Rightarrow> fst ?b) = Inr PyNone \<longrightarrow>
      Commit \<in> set (snd ?b @ [Close])"
    using execute_body_none [of env sql panda_df table_name chunk_size exist_action as_df]
    by (auto split: option.splits)
  have 4: "\<forall>r. (case close env of Some e \<Rightarrow> Inl e | None \<Rightarrow> fst ?b) = Inr r \<and> r \<noteq> PyNone \<longrightarrow>
      Commit \<notin> set (snd ?b @ [Close])"
    using execute_body_rows [of env sql panda_df table_name chunk_size exist_action as_df]
    by (auto split: option.splits)
  show ?thesis
    unfolding execute_unfold Let_def prod.case
    using 1 2 3 4 by blast
qed

lemma execute_select:
  "execute ok_db (Some ''SELECT 1'') None None None ''append'' False =
     (Inr (Rows [[''1'']]), [Execute ''SELECT 1'', Fetchall, Close])"
  by (simp add: execute_unfold execute_body_def ok_db_def truthy_def fmt_def)

lemma execute_bulk:
  "execute ok_db (Some ''SELECT 1'') (Some [[''1'']]) (Some ''t'') None ''append'' False =
     (Inr PyNone, [ToSql [[''1'']] (Some ''t'') ''append'' None, Commit, Close])"
  by (simp add: execute_unfold execute_body_def ok_db_def)

theorem execute_commit_close_witness:
  "execute ok_db (Some ''SELECT 1'') (Some [[''1'']]) (Some ''t'') None ''append'' False =
     (Inr PyNone, [ToSql [[''1'']] (Some ''t'') ''append'' None, Commit, Close]) \<and>
   [[''1'']] \<noteq> ([] :: dataframe) \<and> to_sql ok_db = None \<and>
   Commit \<in> set (snd (execute ok_db (Some ''SELECT 1'') (Some [[''1'']]) (Some ''t'') None ''append'' False))"
proof -
  have t: "to_sql ok_db = None" by (simp add: ok_db_def)
  from execute_commit_close [of ok_db "Some ''SELECT 1''" "Some [[''1'']]" "Some ''t''" None "''append''" False]
  have "Commit \<in> set (snd (execute ok_db (Some ''SELECT 1'') (Some [[''1'']]) (Some ''t'') None ''append'' False))"
    by (simp add: case_prod_beta t)
  with t execute_bulk show ?thesis by simp
qed

text \<open>
  C7 as stated fails: a statement whose result returns rows is executed, fetched and the
  session closed, with no commit before the return.
\<close>

theorem execute_select_counterexample:
  "execute ok_db (Some ''SELECT 1'') None None None ''append'' False =
     (Inr (Rows [[''1'']]), [Execute ''SELECT 1'', Fetchall, Close]) \<and>
   Commit \<notin> set [Execute ''SELECT 1'', Fetchall, Close]"
  by (simp add: execute_select)

lemma execute_body_empty_df:
  "execute_body env sql (Some []) table_name chunk_size exist_action as_df =
     (Inl (ValueError ''Invalid DataFrame''), [])"
  by (simp add: execute_body_def)

lemma execute_empty_df:
  "execute env sql (Some []) table_name chunk_size exist_action as_df =
     (Inl (case close env of Some e \<Rightarrow> e | None \<Rightarrow> ValueError ''Invalid DataFrame''), [Close])"
  by (simp add: execute_unfold execute_body_empty_df split: option.splits)

lemma execute_df_connected:
  "session m = Some s \<Longrightarrow>
   execute_df env m panda_df table_name chunk_size exist_action =
     (fst (execute env None panda_df table_name chunk_size exist_action False),
      SessionCall # snd (execute env None panda_df table_name chunk_size exist_action False))"
  by (simp add: execute_df_def Operations_init_def case_prod_beta)

text \<open>
  C6 (as amended). A bulk write with an empty DataFrame raises \<open>ValueError\<close> with the
  message \<open>Invalid DataFrame\<close> (or the exception of \<open>session.close()\<close>, should that raise)
  without any call to \<open>to_sql\<close>, \<open>commit\<close> or \<open>execute\<close>. Through \<open>execute_df\<close> the session is
  obtained from the registry by \<open>Operations.__init__\<close> before the check and closed after
  it: the calls are exactly the session call and the close.
\<close>

theorem empty_dataframe_rejected:
  assumes "session m = Some s"
  shows "execute_df env m (Some []) table_name chunk_size exist_action =
           (Inl (case close env of Some e \<Rightarrow> e | None \<Rightarrow> ValueError ''Invalid DataFrame''),
            [SessionCall, Close]) \<and>
         execute env sql (Some []) table_name chunk_size exist_action as_df =
           (Inl (case close env of Some e \<Rightarrow> e | None \<Rightarrow> ValueError ''Invalid DataFrame''),
            [Close])"
  by (simp add: execute_df_connected [OF assms] execute_empty_df)

lemma execute_df_empty_ok:
  "execute_df ok_db connected_manager (Some []) (Some ''t'') None ''append'' =
     (Inl (ValueError ''Invalid DataFrame''), [SessionCall, Close])"
proof -
  have s: "session connected_manager = Some ScopedSession" by (simp add: connected_manager_def)
  show ?thesis
    by (simp add: execute_df_connected [OF s] execute_empty_df ok_db_def)
qed

theorem empty_dataframe_rejected_witness:
  "session connected_manager = Some ScopedSession \<and>
   execute_df ok_db connected_manager (Some []) (Some ''t'') None ''append'' =
     (Inl (ValueError ''Invalid DataFrame''), [SessionCall, Close])"
proof -
  have s: "session connected_manager = Some ScopedSession" by (simp add: connected_manager_def)
  from empty_dataframe_rejected [OF s, of ok_db "Some ''t''" None "''append''"] s
  show ?thesis by (simp add: ok_db_def)
qed

text \<open>
  C6 as stated fails: the session is obtained from the registry before the empty
  DataFrame is rejected.
\<close>

theorem empty_dataframe_counterexample:
  "execute_df ok_db connected_manager (Some []) (Some ''t'') None ''append'' =
     (Inl (ValueError ''Invalid DataFrame''), [SessionCall, Close]) \<and>
   SessionCall \<in> set (snd (execute_df ok_db connected_manager (Some []) (Some ''t'') None ''append''))"
  by (simp add: execute_df_empty_ok)

lemma execute_body_df:
  "df \<noteq> [] \<Longrightarrow>
   execute_body env sql (Some df) table_name chunk_size exist_action as_df =
     (case to_sql env of
        Some e \<Rightarrow> (Inl e, [ToSql df table_name exist_action chunk_size])
      | None \<Rightarrow>
          (case commit env of
             Some e \<Rightarrow> (Inl e, [ToSql df table_name exist_action chunk_size, Commit])
           | None \<Rightarrow> (Inr PyNone, [ToSql df table_name exist_action chunk_size, Commit])))"
  by (simp add: execute_body_def)

lemma execute_body_nothing:
  "\<not> truthy sql \<Longrightarrow>
   execute_body env sql None table_name chunk_size exist_action as_df =
     (Inl (ValueError ''No DDL or DML quesries to execute''), [])"
  by (simp add: execute_body_def)

text \<open>
  C10. In \<open>Operations.execute\<close> a non-empty DataFrame takes priority over \<open>sql\<close>: the call
  does what the same call without \<open>sql\<close> and without \<open>get_df\<close> does, its calls are the bulk
  write, the commit if the write succeeded, and the close, and no statement is executed,
  fetched or read. A call with no DataFrame and with \<open>sql\<close> either \<open>None\<close> or empty raises:
  \<open>ValueError\<close> with the message \<open>No DDL or DML quesries to execute\<close>, or the exception of
  \<open>session.close()\<close> should that raise; it never returns.
\<close>

theorem dataframe_priority:
  "(df \<noteq> [] \<longrightarrow>
      execute env sql (Some df) table_name chunk_size exist_action as_df =
        execute env None (Some df) table_name chunk_size exist_action False \<and>
      (let evs = snd (execute env sql (Some df) table_name chunk_size exist_action as_df)
       in (evs = [ToSql df table_name exist_action chunk_size, Close] \<or>
           evs = [ToSql df table_name exist_action chunk_size, Commit, Close]) \<and>
          (\<forall>q. Execute q \<notin> set evs) \<and> (\<forall>q c. ReadSql q c \<notin> set evs) \<and> Fetchall \<notin> set evs)) \<and>
   (\<not> truthy sql \<longrightarrow>
      execute env sql None table_name chunk_size exist_action as_df =
        (Inl (case close env of
                Some e \<Rightarrow> e
              | None \<Rightarrow> ValueError ''No DDL or DML quesries to execute''), [Close]))"
proof -
  have a: "execute env sql (Some df) table_name chunk_size exist_action as_df =
        execute env None (Some df) table_name chunk_size exist_action False" if "df \<noteq> []"
  proof -
    have "execute_body env sql (Some df) table_name chunk_size exist_action as_df =
        execute_body env None (Some df) table_name chunk_size exist_action False"
      by (simp add: execute_body_df [OF that])
    then show ?thesis by (simp only: execute_unfold)
  qed
  have b: "snd (execute env sql (Some df) table_name chunk_size exist_action as_df) =
             [ToSql df table_name exist_action chunk_size, Close] \<or>
           snd (execute env sql (Some df) table_name chunk_size exist_action as_df) =
             [ToSql df table_name exist_action chunk_size, Commit, Close]" if "df \<noteq> []"
    by (simp add: execute_unfold execute_body_df [OF that] split: option.splits)
  have c: "execute env sql None table_name chunk_size exist_action as_df =
        (Inl (case close env of
                Some e \<Rightarrow> e
              | None \<Rightarrow> ValueError ''No DDL or DML quesries to execute''), [Close])"
    if "\<not> truthy sql"
    by (simp add: execute_unfold execute_body_nothing [OF that] split: option.splits)
  show ?thesis
    unfolding Let_def using a b c by auto
qed

theorem dataframe_priority_witness:
  "[[''1'']] \<noteq> ([] :: dataframe) \<and> \<not> truthy None \<and> \<not> truthy (Some '''') \<and>
   execute ok_db (Some ''SELECT 1'') (Some [[''1'']]) (Some ''t'') None ''append'' False =
     execute ok_db None (Some [[''1'']]) (Some ''t'') None ''append'' False \<and>
   execute ok_db None (Some [[''1'']]) (Some ''t'') None ''append'' False =
     (Inr PyNone, [ToSql [[''1'']] (Some ''t'') ''append'' None, Commit, Close]) \<and>
   execute ok_db (Some '''') None None None ''append'' False =
     (Inl (ValueError ''No DDL or DML quesries to execute''), [Close])"
proof -
  have 1: "[[''1'']] \<noteq> ([] :: dataframe)" by simp
  have 2: "\<not> truthy (Some '''')" "\<not> truthy None" by (simp_all add: truthy_def)
  from dataframe_priority [of "[[''1'']]" ok_db "Some ''SELECT 1''" "Some ''t''" None "''append''" False]
  have a: "execute ok_db (Some ''SELECT 1'') (Some [[''1'']]) (Some ''t'') None ''append'' False =
     execute ok_db None (Some [[''1'']]) (Some ''t'') None ''append'' False"
    by simp
  from dataframe_priority [of "[[''1'']]" ok_db "Some ''''" None None "''append''" False] 2
  have b: "execute ok_db (Some '''') None None None ''append'' False =
     (Inl (ValueError ''No DDL or DML quesries to execute''), [Close])"
    by (simp add: ok_db_def)
  have c: "execute ok_db None (Some [[''1'']]) (Some ''t'') None ''append'' False =
     (Inr PyNone, [ToSql [[''1'']] (Some ''t'') ''append'' None, Commit, Close])"
    by (simp add: execute_unfold execute_body_def ok_db_def)
  from 1 2 a b c show ?thesis by blast
qed

end
